theory Spec2Isabelle
  imports Complex_Main
begin

section \<open>Go values, reflected types and outcomes\<close>

text \<open>
  The engine inspects its arguments through Go's \<^verbatim>\<open>reflect\<close> package, so the model
  carries a universal value type together with the type descriptor that
  \<^verbatim>\<open>reflect.TypeOf\<close> reports for each value. A \<^verbatim>\<open>reflect.Type\<close> that may be nil is a
  \<open>gotype option\<close>. Named non-struct types, channels and functions are outside the value
  model; \<^verbatim>\<open>float64\<close> is idealised as \<open>real\<close>.
\<close>

datatype gotype =
    TBool | TInt | TUint | TFloat | TString
  | TSlice gotype
  | TArray nat gotype
  | TPtr gotype
  | TMap gotype gotype
  | TStruct string
  | TInterface string

datatype kind =
    KInvalid | KBool | KInt | KUint | KFloat | KString
  | KSlice | KArray | KPtr | KMap | KStruct | KInterface

datatype goval =
    VNil
  | VBool bool
  | VInt int
  | VUint nat
  | VFloat real
  | VString string
  | VSlice gotype "goval list"
  | VArray gotype "goval list"
  | VPtr gotype "goval option"
  | VMap gotype gotype "(goval \<times> goval) list"
  | VStruct string "goval list"
  | VType gotype
  | VValue "goval option"

text \<open>
  \<open>VNil\<close> is the nil interface value. \<open>VPtr T None\<close> is the nil pointer of type \<open>*T\<close>;
  \<open>VPtr (TInterface I) (Some v)\<close> points at an interface variable whose dynamic value is
  \<open>v\<close>. \<open>VType T\<close> is a non-nil \<^verbatim>\<open>reflect.Type\<close>; \<open>VValue None\<close> is the zero
  \<^verbatim>\<open>reflect.Value\<close> and \<open>VValue (Some v)\<close> is \<^verbatim>\<open>reflect.ValueOf(v)\<close>.
\<close>

datatype 'a outcome = Returns 'a | Panics

fun typeOf :: "goval \<Rightarrow> gotype option" where
  "typeOf VNil = None"
| "typeOf (VBool _) = Some TBool"
| "typeOf (VInt _) = Some TInt"
| "typeOf (VUint _) = Some TUint"
| "typeOf (VFloat _) = Some TFloat"
| "typeOf (VString _) = Some TString"
| "typeOf (VSlice e _) = Some (TSlice e)"
| "typeOf (VArray e xs) = Some (TArray (length xs) e)"
| "typeOf (VPtr e _) = Some (TPtr e)"
| "typeOf (VMap k v _) = Some (TMap k v)"
| "typeOf (VStruct n _) = Some (TStruct n)"
| "typeOf (VType _) = Some (TPtr (TStruct ''reflect.rtype''))"
| "typeOf (VValue _) = Some (TStruct ''reflect.Value'')"

fun kindOfType :: "gotype \<Rightarrow> kind" where
  "kindOfType TBool = KBool"
| "kindOfType TInt = KInt"
| "kindOfType TUint = KUint"
| "kindOfType TFloat = KFloat"
| "kindOfType TString = KString"
| "kindOfType (TSlice _) = KSlice"
| "kindOfType (TArray _ _) = KArray"
| "kindOfType (TPtr _) = KPtr"
| "kindOfType (TMap _ _) = KMap"
| "kindOfType (TStruct _) = KStruct"
| "kindOfType (TInterface _) = KInterface"

text \<open>\<^verbatim>\<open>reflect.ValueOf(v).Kind()\<close>: the zero Value (from nil) has kind Invalid.\<close>

definition valueKind :: "goval \<Rightarrow> kind" where
  "valueKind v = (case typeOf v of None \<Rightarrow> KInvalid | Some ty \<Rightarrow> kindOfType ty)"

text \<open>
  \<^verbatim>\<open>reflect.ValueOf(v).Len()\<close> panics unless the kind is Array, Map, Slice or String
  (or a pointer to an array, which the value model does not build).
\<close>

fun valueLen :: "goval \<Rightarrow> nat outcome" where
  "valueLen (VSlice _ xs) = Returns (length xs)"
| "valueLen (VArray _ xs) = Returns (length xs)"
| "valueLen (VMap _ _ kvs) = Returns (length kvs)"
| "valueLen (VString s) = Returns (length s)"
| "valueLen _ = Panics"

text \<open>\<^verbatim>\<open>Type.Elem()\<close> panics on a nil type and on kinds without an element type.\<close>

fun typeElem :: "gotype option \<Rightarrow> gotype outcome" where
  "typeElem (Some (TSlice e)) = Returns e"
| "typeElem (Some (TArray _ e)) = Returns e"
| "typeElem (Some (TPtr e)) = Returns e"
| "typeElem (Some (TMap _ e)) = Returns e"
| "typeElem _ = Panics"

text \<open>
  \<^verbatim>\<open>argType.Implements(u)\<close>: a method call on a nil \<open>argType\<close> panics, and so does a nil
  or non-interface \<open>u\<close>. Which concrete types satisfy which interface is a fact of the
  surrounding Go program, taken as the parameter \<open>impl\<close>.
\<close>

fun typeImplements ::
  "(gotype \<Rightarrow> string \<Rightarrow> bool) \<Rightarrow> gotype option \<Rightarrow> gotype option \<Rightarrow> bool outcome" where
  "typeImplements impl (Some a) (Some (TInterface i)) = Returns (impl a i)"
| "typeImplements impl _ _ = Panics"

section \<open>BindingParam and the structural check\<close>

text \<open>The struct \<^verbatim>\<open>BindingParam\<close>; its field \<^verbatim>\<open>t\<close> is \<open>ptype\<close> here.\<close>

record BindingParam =
  name :: string
  variadic :: bool
  required :: bool
  defaultValue :: goval
  ptype :: "gotype option"
  interfaceFlag :: bool

text \<open>
  Errors are values. The constructors keep the data each Go message is formatted from;
  \<open>Wrapped\<close> is \<^verbatim>\<open>errors.Wrapf\<close> with a fixed message, \<open>PageError\<close> and
  \<open>PageErrorAfterIgnore\<close> are the two wrappings of \<^verbatim>\<open>Next\<close> that format the page number,
  \<open>External\<close> is an error produced by a collaborator.
\<close>

datatype error =
    SameName string nat string nat
  | RequiredAfterNonRequired string nat
  | VariadicNotLast string nat int
  | VariadicRequired string nat
  | VariadicDefaultKind string nat kind
  | VariadicDefaultNotEmpty string nat nat
  | VariadicElemMismatch string gotype nat "gotype option"
  | ParamTypeMismatch string "gotype option" nat "gotype option"
  | RequiredNotProvided string nat
  | NoAfterParam
  | NotAfterable "gotype option"
  | InvalidParamSet
  | RequiredCannotBeDefaulted string nat
  | RateLimitUnavailable int
  | NotPaginated
  | NoPaginateableParams
  | NonSequenceReturnType gotype
  | PageError int error
  | PageErrorAfterIgnore int error
  | External string
  | Wrapped string error

fun isSchemaError :: "error \<Rightarrow> bool" where
  "isSchemaError (SameName _ _ _ _) = True"
| "isSchemaError (RequiredAfterNonRequired _ _) = True"
| "isSchemaError (VariadicNotLast _ _ _) = True"
| "isSchemaError (VariadicRequired _ _) = True"
| "isSchemaError (VariadicDefaultKind _ _ _) = True"
| "isSchemaError (VariadicDefaultNotEmpty _ _ _) = True"
| "isSchemaError _ = False"

fun isValidationError :: "error \<Rightarrow> bool" where
  "isValidationError (VariadicElemMismatch _ _ _ _) = True"
| "isValidationError (ParamTypeMismatch _ _ _ _) = True"
| "isValidationError (RequiredNotProvided _ _) = True"
| "isValidationError _ = False"

text \<open>
  \<^verbatim>\<open>val.Kind()\<close> is Slice or Array exactly for the two sequence constructors, and
  only then is \<^verbatim>\<open>val.Len()\<close> read: \<open>sliceOrArrayLen\<close> is that guarded read.
\<close>

fun sliceOrArrayLen :: "goval \<Rightarrow> nat option" where
  "sliceOrArrayLen (VSlice _ xs) = Some (length xs)"
| "sliceOrArrayLen (VArray _ xs) = Some (length xs)"
| "sliceOrArrayLen _ = None"

text \<open>
  The free function \<^verbatim>\<open>checkParams\<close> (binding.go 198-256). The loop carries the total
  length \<open>n\<close>, the map \<^verbatim>\<open>namesToIdx\<close>, \<^verbatim>\<open>lastRequiredParam\<close> and the index \<open>i\<close>. The
  inner test \<^verbatim>\<open>if param.required\<close> of the variadic branch is kept although the enclosing
  \<^verbatim>\<open>else\<close> makes it unreachable.
\<close>

fun checkParamsLoop ::
  "nat \<Rightarrow> (string \<rightharpoonup> nat) \<Rightarrow> int \<Rightarrow> nat \<Rightarrow> BindingParam list \<Rightarrow> error option" where
  "checkParamsLoop n namesToIdx lastRequiredParam i [] = None"
| "checkParamsLoop n namesToIdx lastRequiredParam i (param # rest) =
     (case namesToIdx (name param) of
        Some sameNameIdx \<Rightarrow> Some (SameName (name param) i (name param) sameNameIdx)
      | None \<Rightarrow>
         (let namesToIdx' = namesToIdx(name param \<mapsto> i) in
          if required param then
            (if lastRequiredParam \<le> int i - 2
             then Some (RequiredAfterNonRequired (name param) i)
             else checkParamsLoop n namesToIdx' (int i) (Suc i) rest)
          else if variadic param then
            (if int i \<noteq> int n - 1
             then Some (VariadicNotLast (name param) i (int n - int i))
             else if required param then Some (VariadicRequired (name param) i)
             else (case sliceOrArrayLen (defaultValue param) of
                     None \<Rightarrow>
                       Some (VariadicDefaultKind (name param) i (valueKind (defaultValue param)))
                   | Some l \<Rightarrow>
                       if l \<noteq> 0 then Some (VariadicDefaultNotEmpty (name param) i l)
                       else checkParamsLoop n namesToIdx' lastRequiredParam (Suc i) rest))
          else checkParamsLoop n namesToIdx' lastRequiredParam (Suc i) rest))"

definition checkParams :: "BindingParam list \<Rightarrow> error option" where
  "checkParams params = checkParamsLoop (length params) Map.empty 0 0 params"

section \<open>Constructors of BindingParam and the Params notation\<close>

text \<open>
  \<^verbatim>\<open>getReflectType\<close> (part_000 34-64). For a \<^verbatim>\<open>reflect.Type\<close> argument the local
  \<^verbatim>\<open>val\<close> stays the zero Value; for a \<^verbatim>\<open>reflect.Value\<close> argument \<^verbatim>\<open>val.Type()\<close> panics
  on the zero Value. A pointer-to-interface type yields the interface type, the flag and
  the dynamic value behind the pointer (nil for a nil pointer).
\<close>

fun getReflectType :: "goval \<Rightarrow> (gotype option \<times> bool \<times> goval) outcome" where
  "getReflectType (VType ty) =
     (case ty of
        TPtr (TInterface i) \<Rightarrow> Returns (Some (TInterface i), True, VNil)
      | _ \<Rightarrow> Returns (Some ty, False, VNil))"
| "getReflectType (VValue None) = Panics"
| "getReflectType (VValue (Some v)) =
     (case typeOf v of
        None \<Rightarrow> Panics
      | Some ty \<Rightarrow>
         (case ty of
            TPtr (TInterface i) \<Rightarrow>
              (case v of
                 VPtr _ (Some d) \<Rightarrow> Returns (Some (TInterface i), True, d)
               | _ \<Rightarrow> Returns (Some (TInterface i), True, VNil))
          | _ \<Rightarrow> Returns (Some ty, False, v)))"
| "getReflectType a = Returns (typeOf a, False, a)"

definition Param :: "string \<Rightarrow> goval \<Rightarrow> BindingParam outcome" where
  "Param nm val =
     (case getReflectType val of
        Panics \<Rightarrow> Panics
      | Returns (ty, iflag, defV) \<Rightarrow>
          Returns \<lparr>name = nm, variadic = False, required = False, defaultValue = defV,
                   ptype = ty, interfaceFlag = iflag\<rparr>)"

definition ReqParam :: "string \<Rightarrow> goval \<Rightarrow> BindingParam outcome" where
  "ReqParam nm val =
     (case getReflectType val of
        Panics \<Rightarrow> Panics
      | Returns (ty, iflag, defV) \<Rightarrow>
          Returns \<lparr>name = nm, variadic = False, required = True, defaultValue = defV,
                   ptype = ty, interfaceFlag = iflag\<rparr>)"

definition VarParam :: "string \<Rightarrow> goval \<Rightarrow> BindingParam outcome" where
  "VarParam nm val =
     (case getReflectType val of
        Panics \<Rightarrow> Panics
      | Returns (ty, iflag, defV) \<Rightarrow>
          Returns \<lparr>name = nm, variadic = True, required = False, defaultValue = defV,
                   ptype = ty, interfaceFlag = iflag\<rparr>)"

text \<open>
  \<^verbatim>\<open>Params\<close> (part_000 159-247) keeps four variables across its loop: the output list,
  the tuple under construction, the slot counter and the skip flag.
\<close>

record paramsState =
  bindingParams :: "BindingParam list"
  currentBinding :: BindingParam
  currentBindingArg :: nat
  skipUntilName :: bool

definition zeroBindingParam :: BindingParam where
  "zeroBindingParam =
     \<lparr>name = [], variadic = False, required = False, defaultValue = VNil,
      ptype = None, interfaceFlag = False\<rparr>"

definition resetCurrentBinding :: "paramsState \<Rightarrow> paramsState" where
  "resetCurrentBinding st = st\<lparr>currentBinding := zeroBindingParam, currentBindingArg := 0\<rparr>"

definition setDefaultValue ::
  "gotype option \<Rightarrow> bool \<Rightarrow> goval \<Rightarrow> paramsState \<Rightarrow> paramsState" where
  "setDefaultValue ty iflag defVal st =
     (let cb = (currentBinding st)\<lparr>defaultValue := defVal, ptype := ty, interfaceFlag := iflag\<rparr>;
          st1 = st\<lparr>currentBinding := cb, bindingParams := bindingParams st @ [cb]\<rparr>
      in (resetCurrentBinding st1)\<lparr>currentBindingArg := 2\<rparr>)"

text \<open>
  The type assertions \<^verbatim>\<open>arg.(string)\<close> and \<^verbatim>\<open>arg.(bool)\<close> panic when the argument is a
  \<^verbatim>\<open>reflect.Type\<close> or \<^verbatim>\<open>reflect.Value\<close> of that kind rather than the value itself.
\<close>

fun assertString :: "goval \<Rightarrow> string outcome" where
  "assertString (VString s) = Returns s"
| "assertString _ = Panics"

fun assertBool :: "goval \<Rightarrow> bool outcome" where
  "assertBool (VBool b) = Returns b"
| "assertBool _ = Panics"

text \<open>Writing through \<^verbatim>\<open>bindingParams[lastBindingParamIdx]\<close> panics on an empty list.\<close>

definition updateLast ::
  "(BindingParam \<Rightarrow> BindingParam) \<Rightarrow> paramsState \<Rightarrow> paramsState outcome" where
  "updateLast f st =
     (case bindingParams st of
        [] \<Rightarrow> Panics
      | _ # _ \<Rightarrow>
          Returns (st\<lparr>bindingParams :=
            (bindingParams st)[length (bindingParams st) - 1 := f (last (bindingParams st))]\<rparr>))"

text \<open>The body of the default clause, also reached by \<^verbatim>\<open>fallthrough\<close> from the string clause.\<close>

definition paramsDefaultClause ::
  "gotype option \<Rightarrow> bool \<Rightarrow> goval \<Rightarrow> paramsState \<Rightarrow> paramsState" where
  "paramsDefaultClause ty iflag defVal st =
     (if skipUntilName st then st
      else if currentBindingArg st = 1 then setDefaultValue ty iflag defVal st
      else st)"

definition paramsBoolClause ::
  "goval \<Rightarrow> gotype option \<Rightarrow> bool \<Rightarrow> goval \<Rightarrow> paramsState \<Rightarrow> paramsState outcome" where
  "paramsBoolClause arg ty iflag defVal st =
     (if skipUntilName st then Returns st
      else if currentBindingArg st = 1 then Returns (setDefaultValue ty iflag defVal st)
      else if currentBindingArg st = 2 then
        (case assertBool arg of
           Panics \<Rightarrow> Panics
         | Returns r \<Rightarrow>
            (case updateLast (\<lambda>bp. bp\<lparr>required := r\<rparr>) st of
               Panics \<Rightarrow> Panics
             | Returns st1 \<Rightarrow> Returns (st1\<lparr>currentBindingArg := currentBindingArg st1 + 1\<rparr>)))
      else if currentBindingArg st = 3 then
        (case assertBool arg of
           Panics \<Rightarrow> Panics
         | Returns v \<Rightarrow>
            (case updateLast
                    (\<lambda>bp. if v then bp\<lparr>variadic := v, required := False\<rparr>
                          else bp\<lparr>variadic := v\<rparr>) st of
               Panics \<Rightarrow> Panics
             | Returns st1 \<Rightarrow> Returns (resetCurrentBinding st1)))
      else Returns (resetCurrentBinding (st\<lparr>skipUntilName := True\<rparr>)))"

definition paramsStringClause ::
  "goval \<Rightarrow> gotype option \<Rightarrow> bool \<Rightarrow> goval \<Rightarrow> paramsState \<Rightarrow> paramsState outcome" where
  "paramsStringClause arg ty iflag defVal st =
     (let st1 = (if currentBindingArg st = 2 \<or> currentBindingArg st = 3
                 then resetCurrentBinding st else st)
      in if currentBindingArg st1 = 0 then
           (case assertString arg of
              Panics \<Rightarrow> Panics
            | Returns s \<Rightarrow>
                Returns (st1\<lparr>skipUntilName := False,
                             currentBinding := (currentBinding st1)\<lparr>name := s\<rparr>,
                             currentBindingArg := currentBindingArg st1 + 1\<rparr>))
         else Returns (paramsDefaultClause ty iflag defVal st1))"

text \<open>One iteration: \<^verbatim>\<open>t.Kind()\<close> is a method call on a nil interface when \<^verbatim>\<open>t\<close> is nil.\<close>

definition paramsStep :: "paramsState \<Rightarrow> goval \<Rightarrow> paramsState outcome" where
  "paramsStep st arg =
     (case getReflectType arg of
        Panics \<Rightarrow> Panics
      | Returns (ty, iflag, defVal) \<Rightarrow>
         (case ty of
            None \<Rightarrow> Panics
          | Some ty' \<Rightarrow>
             (case kindOfType ty' of
                KString \<Rightarrow> paramsStringClause arg ty iflag defVal st
              | KBool \<Rightarrow> paramsBoolClause arg ty iflag defVal st
              | _ \<Rightarrow> Returns (paramsDefaultClause ty iflag defVal st))))"

fun paramsLoop :: "paramsState \<Rightarrow> goval list \<Rightarrow> paramsState outcome" where
  "paramsLoop st [] = Returns st"
| "paramsLoop st (arg # rest) =
     (case paramsStep st arg of Panics \<Rightarrow> Panics | Returns st1 \<Rightarrow> paramsLoop st1 rest)"

definition Params :: "goval list \<Rightarrow> BindingParam list outcome" where
  "Params args =
     (case paramsLoop \<lparr>bindingParams = [], currentBinding = zeroBindingParam,
                       currentBindingArg = 0, skipUntilName = False\<rparr> args of
        Panics \<Rightarrow> Panics
      | Returns st \<Rightarrow> Returns (bindingParams st))"

section \<open>The binding prototype\<close>

text \<open>
  A \<^verbatim>\<open>Client\<close> is known to the engine only through \<^verbatim>\<open>Run\<close>, which fills the response
  wrapper or fails. An \<^verbatim>\<open>Attr\<close> is a function of the (possibly nil) client that yields a
  key and a value or panics.
\<close>

type_synonym attrMap = "string \<rightharpoonup> goval"

record Client =
  run :: "string \<Rightarrow> attrMap \<Rightarrow> goval \<Rightarrow> goval \<Rightarrow> error + goval"

type_synonym Attr = "Client option \<Rightarrow> (string \<times> goval) outcome"

text \<open>
  A Go slice is a header: the address of its backing array, its length and its capacity.
  Copies of a header share the array.
\<close>

record goslice =
  sArr :: nat
  sLen :: nat
  sCap :: nat

text \<open>
  The struct \<^verbatim>\<open>bindingProto\<close> (binding.go 118-133). Go maps are references: the field
  \<^verbatim>\<open>attrs\<close> is an address into a heap of attribute maps, so that copies of the struct
  share one map, as they do in Go. The field \<^verbatim>\<open>attrFuncs\<close> is a slice header, so that
  copies share its backing array too. The two mutexes guard that sharing and have no
  sequential behaviour. The step methods receive the binding in Go; here they receive
  what they read of it, its attribute map. The parameter-supplier is represented by the
  list it returns. The source field \<^verbatim>\<open>name\<close> is \<open>bindingName\<close>; \<open>resT\<close>, \<open>retT\<close> and
  \<open>goTypeName\<close> stand for the type parameters and for what \<^verbatim>\<open>%T\<close> prints of the struct.
\<close>

record bindingProto =
  requestMethod :: "(attrMap \<Rightarrow> goval list \<Rightarrow> goval) option"
  responseWrapperMethod :: "(attrMap \<Rightarrow> goval list \<Rightarrow> error + goval) option"
  responseUnwrappedMethod :: "(attrMap \<Rightarrow> goval \<Rightarrow> goval list \<Rightarrow> error + goval) option"
  responseMethod :: "(attrMap \<Rightarrow> goval \<Rightarrow> goval list \<Rightarrow> goval) option"
  paramErr :: "error option"
  checkedParams :: bool
  paramsMethod :: "BindingParam list option"
  paginated :: bool
  bindingName :: string
  nameSet :: bool
  attrs :: nat
  attrFuncs :: goslice
  resT :: gotype
  retT :: gotype
  goTypeName :: string

text \<open>
  The heap holds what Go reaches by reference: the attribute maps, the backing arrays of
  the slices of attribute functions, and the \<^verbatim>\<open>bindingProto\<close> structs that the
  \<^verbatim>\<open>Binding\<close> interface values point at. \<open>nextAddr\<close> is the next fresh address.
\<close>

record heap =
  maps :: "nat \<Rightarrow> attrMap"
  arrays :: "nat \<Rightarrow> Attr list"
  structs :: "nat \<Rightarrow> bindingProto option"
  nextAddr :: nat

text \<open>
  Every method of \<^verbatim>\<open>bindingProto\<close> has a value receiver: it works on a copy of the
  struct, and whatever it assigns to a field is lost when it returns unless the copy
  itself is returned. The method \<^verbatim>\<open>checkParams\<close> (binding.go 267-275) returns nothing;
  the model returns the local copy as it stands at the end, for its callers to drop.
\<close>

definition checkParamsMethod :: "bindingProto \<Rightarrow> BindingParam list \<Rightarrow> bindingProto" where
  "checkParamsMethod b params =
     (if \<not> checkedParams b
      then b\<lparr>paramErr := checkParams params, checkedParams := True\<rparr>
      else b)"

text \<open>The method \<^verbatim>\<open>Params\<close> (binding.go 287-296), here \<open>protoParams\<close>: the copy that \<^verbatim>\<open>checkParams\<close> wrote to is dropped.\<close>

definition protoParams :: "bindingProto \<Rightarrow> BindingParam list" where
  "protoParams b =
     (case paramsMethod b of
        None \<Rightarrow> []
      | Some params \<Rightarrow> (let dropped = checkParamsMethod b params in params))"

text \<open>The closure \<^verbatim>\<open>typeCheck\<close> of \<^verbatim>\<open>TypeCheckArgs\<close> (binding.go 332-340).\<close>

definition typeCheck ::
  "(gotype \<Rightarrow> string \<Rightarrow> bool) \<Rightarrow> BindingParam \<Rightarrow> goval \<Rightarrow> (gotype option \<times> bool) outcome" where
  "typeCheck impl param arg =
     (let argType = typeOf arg in
      if interfaceFlag param then
        (case typeImplements impl argType (ptype param) of
           Panics \<Rightarrow> Panics
         | Returns ok \<Rightarrow> Returns (argType, ok))
      else if variadic param then
        (case typeElem (ptype param) of
           Panics \<Rightarrow> Panics
         | Returns e \<Rightarrow> Returns (argType, Some e = argType))
      else Returns (argType, argType = ptype param))"

text \<open>
  The inner loop over \<^verbatim>\<open>args[i:]\<close> for a variadic parameter (binding.go 349-358); \<open>j\<close>
  counts from the start of the tail, as the source's \<^verbatim>\<open>j\<close> does.
\<close>

fun variadicLoop ::
  "(gotype \<Rightarrow> string \<Rightarrow> bool) \<Rightarrow> BindingParam \<Rightarrow> gotype \<Rightarrow> nat \<Rightarrow> goval list \<Rightarrow> goval list
     \<Rightarrow> (goval list \<times> error option) outcome" where
  "variadicLoop impl param paramElemType j [] newArgs = Returns (newArgs, None)"
| "variadicLoop impl param paramElemType j (nextArg # rest) newArgs =
     (case typeCheck impl param nextArg of
        Panics \<Rightarrow> Panics
      | Returns (incorrectType, pass) \<Rightarrow>
          if \<not> pass
          then Returns (newArgs,
                 Some (VariadicElemMismatch (name param) paramElemType j incorrectType))
          else variadicLoop impl param paramElemType (Suc j) rest (newArgs @ [nextArg]))"

text \<open>The loop over the parameters (binding.go 342-381), from index \<open>i\<close>.\<close>

fun typeCheckLoop ::
  "(gotype \<Rightarrow> string \<Rightarrow> bool) \<Rightarrow> goval list \<Rightarrow> nat \<Rightarrow> BindingParam list \<Rightarrow> goval list
     \<Rightarrow> (goval list \<times> error option) outcome" where
  "typeCheckLoop impl args i [] newArgs = Returns (newArgs, None)"
| "typeCheckLoop impl args i (param # rest) newArgs =
     (if i < length args then
        (if variadic param then
           (case typeElem (ptype param) of
              Panics \<Rightarrow> Panics
            | Returns paramElemType \<Rightarrow>
                variadicLoop impl param paramElemType 0 (drop i args) newArgs)
         else
           (case typeCheck impl param (args ! i) of
              Panics \<Rightarrow> Panics
            | Returns (incorrectType, pass) \<Rightarrow>
                if \<not> pass
                then Returns (newArgs,
                       Some (ParamTypeMismatch (name param) (ptype param) i incorrectType))
                else typeCheckLoop impl args (Suc i) rest (newArgs @ [args ! i])))
      else if required param then
        Returns (newArgs, Some (RequiredNotProvided (name param) i))
      else if \<not> required param \<and> \<not> variadic param then
        typeCheckLoop impl args (Suc i) rest (newArgs @ [defaultValue param])
      else typeCheckLoop impl args (Suc i) rest newArgs)"

text \<open>
  \<^verbatim>\<open>TypeCheckArgs\<close> (binding.go 321-384). It reads \<^verbatim>\<open>b.paramErr\<close> of its own receiver,
  which the call to \<^verbatim>\<open>b.Params()\<close> cannot have changed.
\<close>

definition TypeCheckArgs ::
  "(gotype \<Rightarrow> string \<Rightarrow> bool) \<Rightarrow> bindingProto \<Rightarrow> goval list
     \<Rightarrow> (goval list \<times> error option) outcome" where
  "TypeCheckArgs impl b args =
     (let params = protoParams b in
      case paramErr b of
        Some e \<Rightarrow> Returns ([], Some e)
      | None \<Rightarrow>
          if length params > 0 then typeCheckLoop impl args 0 params []
          else Returns ([], None))"

section \<open>Attributes, constructors, setters and Execute\<close>

text \<open>
  \<^verbatim>\<open>slices.RemoveElems\<close> of the gotils library drops the elements at the given indices.
\<close>

definition removeElems :: "'a list \<Rightarrow> nat list \<Rightarrow> 'a list" where
  "removeElems xs idxs = map snd (filter (\<lambda>(i, x). i \<notin> set idxs) (zip [0..<length xs] xs))"

text \<open>
  The elements a slice shows: the first \<open>sLen\<close> entries of its backing array. A new slice
  of given elements gets an array of its own. A nil \<^verbatim>\<open>Attr\<close> panics when called, and that
  panic is recovered like any other, so the unused entries of an array are functions
  that panic.
\<close>

definition sliceElems :: "heap \<Rightarrow> goslice \<Rightarrow> Attr list" where
  "sliceElems h s = take (sLen s) (arrays h (sArr s))"

definition newSlice :: "heap \<Rightarrow> Attr list \<Rightarrow> heap \<times> goslice" where
  "newSlice h xs =
     (h\<lparr>arrays := (arrays h)(nextAddr h := xs), nextAddr := Suc (nextAddr h)\<rparr>,
      \<lparr>sArr = nextAddr h, sLen = length xs, sCap = length xs\<rparr>)"

definition nilAttr :: Attr where
  "nilAttr client = Panics"

text \<open>
  Go's \<^verbatim>\<open>append\<close>. When the capacity suffices the new elements are written into the
  backing array behind the current length, and the result shares that array with the
  argument. Otherwise a larger array is allocated and the elements are copied; how much
  larger is the runtime's choice, the parameter \<open>grow\<close> of the old capacity and the
  length needed.
\<close>

definition goAppend :: "(nat \<Rightarrow> nat \<Rightarrow> nat) \<Rightarrow> heap \<Rightarrow> goslice \<Rightarrow> Attr list \<Rightarrow> heap \<times> goslice" where
  "goAppend grow h s xs =
     (let needed = sLen s + length xs; old = arrays h (sArr s) in
      if needed \<le> sCap s then
        (h\<lparr>arrays := (arrays h)(sArr s := take (sLen s) old @ xs @ drop needed old)\<rparr>,
         s\<lparr>sLen := needed\<rparr>)
      else
        (let c = grow (sCap s) needed in
         (h\<lparr>arrays := (arrays h)(nextAddr h :=
                  take (sLen s) old @ xs @ replicate (c - needed) nilAttr),
             nextAddr := Suc (nextAddr h)\<rparr>,
          \<lparr>sArr = nextAddr h, sLen = needed, sCap = c\<rparr>)))"

text \<open>
  The loop of \<^verbatim>\<open>evaluateAttrs\<close> (binding.go 459-467): an attribute function that panics
  is recovered and skipped, one that returns writes its key into the shared map.
\<close>

fun evaluateAttrsLoop ::
  "Client option \<Rightarrow> nat \<Rightarrow> Attr list \<Rightarrow> nat list \<Rightarrow> attrMap \<Rightarrow> nat list \<times> attrMap" where
  "evaluateAttrsLoop client i [] evaluatedAttrIndexes m = (evaluatedAttrIndexes, m)"
| "evaluateAttrsLoop client i (attr # rest) evaluatedAttrIndexes m =
     (case attr client of
        Returns (key, val) \<Rightarrow>
          evaluateAttrsLoop client (Suc i) rest (evaluatedAttrIndexes @ [i]) (m(key \<mapsto> val))
      | Panics \<Rightarrow> evaluateAttrsLoop client (Suc i) rest evaluatedAttrIndexes m)"

text \<open>
  \<^verbatim>\<open>evaluateAttrs\<close> (binding.go 446-474) has a value receiver too. Its writes to the map
  reach the heap; its assignment to \<^verbatim>\<open>b.attrFuncs\<close>, of the new slice that
  \<^verbatim>\<open>RemoveElems\<close> returns, stays in the local copy, which is returned here as the second
  component.
\<close>

definition evaluateAttrs :: "heap \<Rightarrow> bindingProto \<Rightarrow> Client option \<Rightarrow> heap \<times> bindingProto" where
  "evaluateAttrs h b client =
     (case evaluateAttrsLoop client 0 (sliceElems h (attrFuncs b)) [] (maps h (attrs b)) of
        (evaluatedAttrIndexes, m) \<Rightarrow>
          (let h1 = h\<lparr>maps := (maps h)(attrs b := m)\<rparr> in
           if length evaluatedAttrIndexes > 0
           then (case newSlice h1 (removeElems (sliceElems h (attrFuncs b)) evaluatedAttrIndexes) of
                   (h2, s) \<Rightarrow> (h2, b\<lparr>attrFuncs := s\<rparr>))
           else (h1, b)))"

text \<open>
  \<^verbatim>\<open>NewBinding\<close> (binding.go 517-542) and \<^verbatim>\<open>NewBindingChain\<close> (564-574) allocate a fresh
  attribute map. The attribute functions passed to \<^verbatim>\<open>NewBinding\<close> arrive in a slice of
  their own; \<^verbatim>\<open>NewBindingChain\<close> makes an empty one. The last three arguments
  instantiate the type parameters. Both return a pointer to the struct; the model
  returns the struct, and \<open>returnAddressOf\<close> below places it.
\<close>

definition NewBinding ::
  "heap \<Rightarrow> (attrMap \<Rightarrow> goval list \<Rightarrow> goval) option
     \<Rightarrow> (attrMap \<Rightarrow> goval list \<Rightarrow> error + goval) option
     \<Rightarrow> (attrMap \<Rightarrow> goval \<Rightarrow> goval list \<Rightarrow> error + goval) option
     \<Rightarrow> (attrMap \<Rightarrow> goval \<Rightarrow> goval list \<Rightarrow> goval) option
     \<Rightarrow> BindingParam list option \<Rightarrow> bool \<Rightarrow> Attr list
     \<Rightarrow> gotype \<Rightarrow> gotype \<Rightarrow> string \<Rightarrow> heap \<times> bindingProto" where
  "NewBinding h request wrap unwrap response params pag attrFns rT tT tyName =
     (let a = nextAddr h;
          h0 = h\<lparr>maps := (maps h)(a := Map.empty), nextAddr := Suc a\<rparr>
      in case newSlice h0 attrFns of
           (h1, s) \<Rightarrow>
             (let b = \<lparr>requestMethod = request, responseWrapperMethod = wrap,
                       responseUnwrappedMethod = unwrap, responseMethod = response,
                       paramErr = None, checkedParams = False, paramsMethod = params,
                       paginated = pag, bindingName = [], nameSet = False,
                       attrs = a, attrFuncs = s, resT = rT, retT = tT, goTypeName = tyName\<rparr>
              in (fst (evaluateAttrs h1 b None), b)))"

definition NewBindingChain ::
  "heap \<Rightarrow> (attrMap \<Rightarrow> goval list \<Rightarrow> goval) option
     \<Rightarrow> gotype \<Rightarrow> gotype \<Rightarrow> string \<Rightarrow> heap \<times> bindingProto" where
  "NewBindingChain h request rT tT tyName =
     (let a = nextAddr h;
          h0 = h\<lparr>maps := (maps h)(a := Map.empty), nextAddr := Suc a\<rparr>
      in case newSlice h0 [] of
           (h1, s) \<Rightarrow>
             (h1,
              \<lparr>requestMethod = request, responseWrapperMethod = None,
               responseUnwrappedMethod = None, responseMethod = None,
               paramErr = None, checkedParams = False, paramsMethod = None,
               paginated = False, bindingName = [], nameSet = False,
               attrs = a, attrFuncs = s, resT = rT, retT = tT, goTypeName = tyName\<rparr>))"

text \<open>
  The setters (binding.go 150-153, 166-169, 182-185, 277-285, 418-421, 430-434, 438-444)
  assign to the receiver's copy and return its address. Each definition gives the copy
  as it stands at \<^verbatim>\<open>return &b\<close>; \<open>returnAddressOf\<close> below places it at its address.
  \<^verbatim>\<open>SetParamsMethod\<close> calls \<^verbatim>\<open>b.Params()\<close> for its check and drops what it returns.
  \<^verbatim>\<open>AddAttrs\<close> appends to the receiver's slice, which may write into the backing array
  that the original and other copies share.
\<close>

definition SetResponseWrapperMethod ::
  "bindingProto \<Rightarrow> (attrMap \<Rightarrow> goval list \<Rightarrow> error + goval) option \<Rightarrow> bindingProto" where
  "SetResponseWrapperMethod b method = b\<lparr>responseWrapperMethod := method\<rparr>"

definition SetResponseUnwrappedMethod ::
  "bindingProto \<Rightarrow> (attrMap \<Rightarrow> goval \<Rightarrow> goval list \<Rightarrow> error + goval) option \<Rightarrow> bindingProto" where
  "SetResponseUnwrappedMethod b method = b\<lparr>responseUnwrappedMethod := method\<rparr>"

definition SetResponseMethod ::
  "bindingProto \<Rightarrow> (attrMap \<Rightarrow> goval \<Rightarrow> goval list \<Rightarrow> goval) option \<Rightarrow> bindingProto" where
  "SetResponseMethod b method = b\<lparr>responseMethod := method\<rparr>"

definition SetParamsMethod :: "bindingProto \<Rightarrow> BindingParam list option \<Rightarrow> bindingProto" where
  "SetParamsMethod b method =
     (let b1 = b\<lparr>paramsMethod := method, paramErr := None, checkedParams := False\<rparr>;
          dropped = protoParams b1
      in b1)"

definition SetPaginated :: "bindingProto \<Rightarrow> bool \<Rightarrow> bindingProto" where
  "SetPaginated b pag = b\<lparr>paginated := pag\<rparr>"

definition SetName :: "bindingProto \<Rightarrow> string \<Rightarrow> bindingProto" where
  "SetName b nm = b\<lparr>bindingName := nm, nameSet := True\<rparr>"

definition AddAttrs ::
  "(nat \<Rightarrow> nat \<Rightarrow> nat) \<Rightarrow> heap \<Rightarrow> bindingProto \<Rightarrow> Attr list \<Rightarrow> heap \<times> bindingProto" where
  "AddAttrs grow h b attrFns =
     (case goAppend grow h (attrFuncs b) attrFns of
        (h1, s) \<Rightarrow>
          (let b1 = b\<lparr>attrFuncs := s\<rparr>
           in (fst (evaluateAttrs h1 b1 None), b1)))"

text \<open>
  A \<^verbatim>\<open>Binding\<close> interface value holds a \<^verbatim>\<open>*bindingProto\<close>. \<^verbatim>\<open>return &b\<close> moves the
  receiver's copy to a fresh address and returns that address. A call of a
  value-receiver method through the interface value copies the struct it points at into
  the receiver; through a nil pointer it panics.
\<close>

definition returnAddressOf :: "heap \<Rightarrow> bindingProto \<Rightarrow> heap \<times> nat" where
  "returnAddressOf h b =
     (h\<lparr>structs := (structs h)(nextAddr h := Some b), nextAddr := Suc (nextAddr h)\<rparr>,
      nextAddr h)"

definition callSetter ::
  "heap \<Rightarrow> nat \<Rightarrow> (bindingProto \<Rightarrow> bindingProto) \<Rightarrow> (heap \<times> nat) outcome" where
  "callSetter h p setter =
     (case structs h p of
        None \<Rightarrow> Panics
      | Some b \<Rightarrow> Returns (returnAddressOf h (setter b)))"

definition callAddAttrs ::
  "(nat \<Rightarrow> nat \<Rightarrow> nat) \<Rightarrow> heap \<Rightarrow> nat \<Rightarrow> Attr list \<Rightarrow> (heap \<times> nat) outcome" where
  "callAddAttrs grow h p attrFns =
     (case structs h p of
        None \<Rightarrow> Panics
      | Some b \<Rightarrow>
          (case AddAttrs grow h b attrFns of
             (h1, b1) \<Rightarrow> Returns (returnAddressOf h1 b1)))"

text \<open>The getters a caller can observe a binding through.\<close>

definition Name :: "bindingProto \<Rightarrow> string" where
  "Name b = (if \<not> nameSet b then goTypeName b else bindingName b)"

definition Attrs :: "heap \<Rightarrow> bindingProto \<Rightarrow> attrMap" where
  "Attrs h b = maps h (attrs b)"

definition Paginated :: "bindingProto \<Rightarrow> bool" where
  "Paginated b = paginated b"

text \<open>The four steps with their defaults (binding.go 139-144, 155-160, 171-176, 187-192).\<close>

fun zeroValue :: "gotype \<Rightarrow> goval" where
  "zeroValue TBool = VBool False"
| "zeroValue TInt = VInt 0"
| "zeroValue TUint = VUint 0"
| "zeroValue TFloat = VFloat 0"
| "zeroValue TString = VString []"
| "zeroValue (TSlice e) = VSlice e []"
| "zeroValue (TArray n e) = VArray e (replicate n (zeroValue e))"
| "zeroValue (TPtr e) = VPtr e None"
| "zeroValue (TMap k v) = VMap k v []"
| "zeroValue (TStruct n) = VStruct n []"
| "zeroValue (TInterface _) = VNil"

definition Request :: "heap \<Rightarrow> bindingProto \<Rightarrow> goval list \<Rightarrow> goval" where
  "Request h b args =
     (case requestMethod b of None \<Rightarrow> VNil | Some f \<Rightarrow> f (Attrs h b) args)"

definition ResponseWrapper :: "heap \<Rightarrow> bindingProto \<Rightarrow> goval list \<Rightarrow> error + goval" where
  "ResponseWrapper h b args =
     (case responseWrapperMethod b of
        None \<Rightarrow> Inr (VPtr (resT b) (Some (zeroValue (resT b))))
      | Some f \<Rightarrow> f (Attrs h b) args)"

text \<open>The default unwrapper asserts the wrapper to \<^verbatim>\<open>*ResT\<close> and dereferences it.\<close>

definition ResponseUnwrapped ::
  "heap \<Rightarrow> bindingProto \<Rightarrow> goval \<Rightarrow> goval list \<Rightarrow> (error + goval) outcome" where
  "ResponseUnwrapped h b responseWrapper args =
     (case responseUnwrappedMethod b of
        None \<Rightarrow>
          (case responseWrapper of
             VPtr ty (Some v) \<Rightarrow> if ty = resT b then Returns (Inr v) else Panics
           | _ \<Rightarrow> Panics)
      | Some f \<Rightarrow> Returns (f (Attrs h b) responseWrapper args))"

text \<open>The default converter is the type assertion \<^verbatim>\<open>any(response).(RetT)\<close>.\<close>

definition Response ::
  "(gotype \<Rightarrow> string \<Rightarrow> bool) \<Rightarrow> heap \<Rightarrow> bindingProto \<Rightarrow> goval \<Rightarrow> goval list \<Rightarrow> goval outcome" where
  "Response impl h b response args =
     (case responseMethod b of
        None \<Rightarrow>
          (case typeOf response of
             None \<Rightarrow> Panics
           | Some ty \<Rightarrow>
              (case retT b of
                 TInterface i \<Rightarrow> if impl ty i then Returns response else Panics
               | _ \<Rightarrow> if ty = retT b then Returns response else Panics))
      | Some f \<Rightarrow> Returns (f (Attrs h b) response args))"

text \<open>
  \<^verbatim>\<open>Execute\<close> after its type check (binding.go 392-414), given the normalized arguments.
  A nil client panics at \<^verbatim>\<open>client.Run\<close>.
\<close>

definition executeSteps ::
  "(gotype \<Rightarrow> string \<Rightarrow> bool) \<Rightarrow> heap \<Rightarrow> bindingProto \<Rightarrow> Client option \<Rightarrow> goval list
     \<Rightarrow> (heap \<times> (error + goval)) outcome" where
  "executeSteps impl h b client args =
     (let h1 = fst (evaluateAttrs h b client);
          req = Request h1 b args
      in case ResponseWrapper h1 b args of
           Inl e \<Rightarrow> Returns (h1, Inl (Wrapped ''could not execute ResponseWrapper for Binding'' e))
         | Inr responseWrapper \<Rightarrow>
            (case client of
               None \<Rightarrow> Panics
             | Some c \<Rightarrow>
                (case run c (Name b) (Attrs h1 b) req responseWrapper of
                   Inl e \<Rightarrow> Returns (h1, Inl (Wrapped ''could not Execute Binding'' e))
                 | Inr filled \<Rightarrow>
                    (case ResponseUnwrapped h1 b filled args of
                       Panics \<Rightarrow> Panics
                     | Returns (Inl e) \<Rightarrow>
                         Returns (h1,
                           Inl (Wrapped ''could not execute ResponseUnwrapped for Binding'' e))
                     | Returns (Inr responseUnwrapped) \<Rightarrow>
                        (case Response impl h1 b responseUnwrapped args of
                           Panics \<Rightarrow> Panics
                         | Returns response \<Rightarrow> Returns (h1, Inr response))))))"

text \<open>\<^verbatim>\<open>Execute\<close> (binding.go 386-415): the normalized list replaces the caller's arguments.\<close>

definition Execute ::
  "(gotype \<Rightarrow> string \<Rightarrow> bool) \<Rightarrow> heap \<Rightarrow> bindingProto \<Rightarrow> Client option \<Rightarrow> goval list
     \<Rightarrow> (heap \<times> (error + goval)) outcome" where
  "Execute impl h b client args =
     (case TypeCheckArgs impl b args of
        Panics \<Rightarrow> Panics
      | Returns (newArgs, Some e) \<Rightarrow>
          Returns (h, Inl (Wrapped ''type check failed for Binding'' e))
      | Returns (newArgs, None) \<Rightarrow> executeSteps impl h b client newArgs)"

text \<open>
  \<^verbatim>\<open>ArgsFromStrings\<close> (binding.go 298-319) consults the schema the same way before it
  parses; only that prefix is modelled, the JSON parsing being a collaborator's.
\<close>

definition ArgsFromStringsSchemaCheck :: "bindingProto \<Rightarrow> error option" where
  "ArgsFromStringsSchemaCheck b = (let params = protoParams b in paramErr b)"

text \<open>
  The bindings a program can hold: those the two constructors return, and what the
  setters make of them.
\<close>

inductive constructed :: "bindingProto \<Rightarrow> bool" where
  byNewBinding:
    "constructed (snd (NewBinding h request wrap unwrap response params pag attrFns rT tT tyName))"
| byNewBindingChain: "constructed (snd (NewBindingChain h request rT tT tyName))"
| bySetResponseWrapperMethod: "constructed b \<Longrightarrow> constructed (SetResponseWrapperMethod b w)"
| bySetResponseUnwrappedMethod: "constructed b \<Longrightarrow> constructed (SetResponseUnwrappedMethod b u)"
| bySetResponseMethod: "constructed b \<Longrightarrow> constructed (SetResponseMethod b r)"
| bySetParamsMethod: "constructed b \<Longrightarrow> constructed (SetParamsMethod b m)"
| bySetPaginated: "constructed b \<Longrightarrow> constructed (SetPaginated b pag)"
| bySetName: "constructed b \<Longrightarrow> constructed (SetName b nm)"
| byAddAttrs: "constructed b \<Longrightarrow> constructed (snd (AddAttrs grow h b attrFns))"

section \<open>Pagination and rate limits\<close>

text \<open>
  The capabilities a result type may have (\<^verbatim>\<open>Mergeable\<close>, \<^verbatim>\<open>Afterable\<close>) are methods
  of the surrounding program: which types implement which interface, and what the
  methods return, are parameters of the model.
\<close>

record goenv =
  implements :: "gotype \<Rightarrow> string \<Rightarrow> bool"
  hasMoreOf :: "goval \<Rightarrow> bool"
  mergeOf :: "goval \<Rightarrow> goval \<Rightarrow> goval \<times> error option"
  afterOf :: "goval \<Rightarrow> goval"

datatype paginatorParamSet = unknownParamSet | pageParamSet | afterParamSet

datatype RateLimitType = RequestRateLimit | ResourceRateLimit | OtherRateLimit

record RateLimit =
  rlReset :: int
  rlRemaining :: int
  rlUsed :: int
  rlType :: RateLimitType

text \<open>
  What lies outside the engine: the clock, the rate-limit oracle and the binding's
  \<^verbatim>\<open>Execute\<close>, reached through the \<^verbatim>\<open>Binding\<close> interface. The oracle and \<^verbatim>\<open>Execute\<close>
  may answer differently from call to call, so each is a function of the number of calls
  made so far, and the world counts them. \<^verbatim>\<open>Execute\<close> returns a value and an error, as in
  Go. Time is a number of ticks; \<^verbatim>\<open>time.Now\<close> reads the clock and \<^verbatim>\<open>time.Sleep\<close> advances
  it and is recorded. \<^verbatim>\<open>Log\<close> has no effect the engine can observe and is left out.
\<close>

record world =
  clock :: int
  rateLimits :: "nat \<Rightarrow> RateLimit option"
  rateLimitCalls :: nat
  executions :: "nat \<Rightarrow> goval list \<Rightarrow> goval \<times> error option"
  executeCalls :: nat
  slept :: "int list"

definition latestRateLimit :: "world \<Rightarrow> RateLimit option \<times> world" where
  "latestRateLimit w = (rateLimits w (rateLimitCalls w), w\<lparr>rateLimitCalls := Suc (rateLimitCalls w)\<rparr>)"

definition sleepFor :: "int \<Rightarrow> world \<Rightarrow> world" where
  "sleepFor d w = w\<lparr>clock := clock w + max d 0, slept := slept w @ [d]\<rparr>"

definition bindingExecute :: "goval list \<Rightarrow> world \<Rightarrow> (goval \<times> error option) \<times> world" where
  "bindingExecute args w =
     (executions w (executeCalls w) args, w\<lparr>executeCalls := Suc (executeCalls w)\<rparr>)"

text \<open>
  The structs \<^verbatim>\<open>typedPaginator\<close> (api_test.go 703-716) and \<^verbatim>\<open>paginator\<close> (1036-1049)
  have the same fields and share this record. Of the client only the outcome of the
  assertion \<^verbatim>\<open>client.(RateLimitedClient)\<close> is kept, of the binding its name. \<^verbatim>\<open>limitArg\<close>
  is a \<^verbatim>\<open>*float64\<close>: \<open>None\<close> is the nil pointer.
\<close>

record paginatorState =
  pgClientRateLimited :: bool
  pgUsingRateLimitedClient :: bool
  pgBindingName :: string
  pgParams :: "BindingParam list"
  pgParamSet :: paginatorParamSet
  pgLimitArg :: "real option"
  pgWaitTime :: int
  pgArgs :: "goval list"
  pgReturnType :: gotype
  pgPage :: int
  pgCurrentPage :: goval

text \<open>\<^verbatim>\<open>paginatorParamSet.Set\<close> (api_test.go 656-665).\<close>

fun paramSetNames :: "paginatorParamSet \<Rightarrow> string set" where
  "paramSetNames pageParamSet = {''page''}"
| "paramSetNames afterParamSet = {''after''}"
| "paramSetNames unknownParamSet = {}"

text \<open>\<^verbatim>\<open>checkPaginatorParams\<close> (api_test.go 671-681), over \<^verbatim>\<open>Sets()\<close> in priority order.\<close>

definition checkPaginatorParams :: "BindingParam list \<Rightarrow> paginatorParamSet" where
  "checkPaginatorParams params =
     (let paramNameSet = set (map name params) in
      if paramSetNames pageParamSet - paramNameSet = {} then pageParamSet
      else if paramSetNames afterParamSet - paramNameSet = {} then afterParamSet
      else unknownParamSet)"

text \<open>
  \<^verbatim>\<open>GetPaginatorParamValue\<close> (api_test.go 604-626). \<^verbatim>\<open>reflect.Zero\<close> panics on a nil
  type.
\<close>

fun zeroOfAfterParam :: "BindingParam list \<Rightarrow> (error + attrMap) outcome" where
  "zeroOfAfterParam [] = Returns (Inl NoAfterParam)"
| "zeroOfAfterParam (param # rest) =
     (if name param = ''after''
      then (case ptype param of
              None \<Rightarrow> Panics
            | Some ty \<Rightarrow> Returns (Inr [''after'' \<mapsto> zeroValue ty]))
      else zeroOfAfterParam rest)"

definition GetPaginatorParamValue ::
  "goenv \<Rightarrow> paginatorParamSet \<Rightarrow> BindingParam list \<Rightarrow> goval \<Rightarrow> int \<Rightarrow> (error + attrMap) outcome" where
  "GetPaginatorParamValue env pps params resource page =
     (case pps of
        pageParamSet \<Rightarrow> Returns (Inr [''page'' \<mapsto> VInt page])
      | afterParamSet \<Rightarrow>
         (case typeOf resource of
            None \<Rightarrow> zeroOfAfterParam params
          | Some ty \<Rightarrow>
              if implements env ty ''Afterable''
              then Returns (Inr [''after'' \<mapsto> afterOf env resource])
              else Returns (Inl (NotAfterable (Some ty))))
      | unknownParamSet \<Rightarrow> Returns (Inl InvalidParamSet))"

text \<open>
  \<^verbatim>\<open>slices.AddElems\<close> of the gotils library, as \<^verbatim>\<open>InsertPaginatorParamValues\<close> uses it:
  one element inserted at an index that never exceeds the length.
\<close>

definition addElemAt :: "'a list \<Rightarrow> 'a \<Rightarrow> nat \<Rightarrow> 'a list" where
  "addElemAt xs x i = take i xs @ [x] @ drop i xs"

text \<open>
  \<^verbatim>\<open>InsertPaginatorParamValues\<close> (api_test.go 628-654); the test that ends each
  iteration leaves the loop once every paginator value has been inserted.
\<close>

fun insertLoop ::
  "string set \<Rightarrow> attrMap \<Rightarrow> nat \<Rightarrow> BindingParam list \<Rightarrow> goval list \<Rightarrow> string set
     \<Rightarrow> goval list \<times> error option" where
  "insertLoop ppsSet paginatorValues paramNo [] args ppsSetUsed = (args, None)"
| "insertLoop ppsSet paginatorValues paramNo (param # rest) args ppsSetUsed =
     (case paginatorValues (name param) of
        Some pagVal \<Rightarrow>
          (let args1 = addElemAt args pagVal paramNo;
               used1 = insert (name param) ppsSetUsed
           in if ppsSet = used1 then (args1, None)
              else insertLoop ppsSet paginatorValues (Suc paramNo) rest args1 used1)
      | None \<Rightarrow>
          if paramNo \<ge> length args then
            (if required param
             then (args, Some (RequiredCannotBeDefaulted (name param) paramNo))
             else (let args1 = addElemAt args (defaultValue param) paramNo
                   in if ppsSet = ppsSetUsed then (args1, None)
                      else insertLoop ppsSet paginatorValues (Suc paramNo) rest args1 ppsSetUsed))
          else if ppsSet = ppsSetUsed then (args, None)
          else insertLoop ppsSet paginatorValues (Suc paramNo) rest args ppsSetUsed)"

definition InsertPaginatorParamValues ::
  "paginatorParamSet \<Rightarrow> BindingParam list \<Rightarrow> goval list \<Rightarrow> attrMap \<Rightarrow> goval list \<times> error option" where
  "InsertPaginatorParamValues pps params args paginatorValues =
     insertLoop (paramSetNames pps) paginatorValues 0 params args {}"

text \<open>
  \<^verbatim>\<open>Continue\<close> of the typed paginator (api_test.go 722-732) and of the untyped one
  (1055-1065). \<^verbatim>\<open>hasMore\<close> is computed before the page number is looked at, and
  \<^verbatim>\<open>reflect.ValueOf(p.currentPage).Len()\<close> panics on a value without a length.
\<close>

definition typedContinue :: "goenv \<Rightarrow> paginatorState \<Rightarrow> bool outcome" where
  "typedContinue env p =
     (if implements env (pgReturnType p) ''Mergeable'' then
        (let hasMore = (case typeOf (pgCurrentPage p) of
                          None \<Rightarrow> False
                        | Some ty \<Rightarrow> if implements env ty ''Mergeable''
                                     then hasMoreOf env (pgCurrentPage p) else False)
         in Returns (pgPage p = 1 \<or> hasMore))
      else
        (case valueLen (pgCurrentPage p) of
           Panics \<Rightarrow> Panics
         | Returns l \<Rightarrow> Returns (pgPage p = 1 \<or> l > 0)))"

definition untypedContinue :: "goenv \<Rightarrow> paginatorState \<Rightarrow> bool outcome" where
  "untypedContinue env p =
     (if implements env (pgReturnType p) ''Mergeable'' then
        (let hasMore = (case typeOf (pgCurrentPage p) of
                          None \<Rightarrow> False
                        | Some ty \<Rightarrow> if implements env ty ''Mergeable''
                                     then hasMoreOf env (pgCurrentPage p) else False)
         in Returns (pgPage p = 1 \<or> hasMore))
      else
        (case valueLen (pgCurrentPage p) of
           Panics \<Rightarrow> Panics
         | Returns l \<Rightarrow> Returns (pgPage p = 1 \<or> l > 0)))"

text \<open>
  The retry loop of \<^verbatim>\<open>paginatorCheckRateLimit\<close> (api_test.go 748-758): the first fetch
  and up to three more, each after a sleep of \<^verbatim>\<open>waitTime\<close>.
\<close>

fun fetchRetry :: "nat \<Rightarrow> int \<Rightarrow> RateLimit option \<Rightarrow> world \<Rightarrow> RateLimit option \<times> world" where
  "fetchRetry 0 waitTime rl w = (rl, w)"
| "fetchRetry (Suc tries) waitTime rl w =
     (case rl of
        Some r \<Rightarrow> (rl, w)
      | None \<Rightarrow>
          (case latestRateLimit (sleepFor waitTime w) of
             (rl1, w1) \<Rightarrow> fetchRetry tries waitTime rl1 w1))"

definition fetchLimit :: "int \<Rightarrow> world \<Rightarrow> RateLimit option \<times> world" where
  "fetchLimit waitTime w = (case latestRateLimit w of (rl, w0) \<Rightarrow> fetchRetry 3 waitTime rl w0)"

text \<open>The value switch of the limit search (api_test.go 796-806).\<close>

fun numericValue :: "goval option \<Rightarrow> real option" where
  "numericValue (Some (VInt n)) = Some (real_of_int n)"
| "numericValue (Some (VUint n)) = Some (real n)"
| "numericValue (Some (VFloat x)) = Some x"
| "numericValue _ = None"

text \<open>
  The search for a parameter named limit or count (api_test.go 784-810): \<open>Some val\<close> when
  the loop reaches the assignment \<^verbatim>\<open>**limitArg = val\<close>, \<open>None\<close> when it runs out.
\<close>

fun findLimitArg :: "BindingParam list \<Rightarrow> goval list \<Rightarrow> nat \<Rightarrow> real option" where
  "findLimitArg [] args i = None"
| "findLimitArg (param # rest) args i =
     (if name param \<notin> {''limit'', ''count''} then findLimitArg rest args (Suc i)
      else
        (let argVal = (if i < length args then Some (args ! i)
                       else if \<not> required param \<and> \<not> variadic param
                       then Some (defaultValue param) else None)
         in case numericValue argVal of
              None \<Rightarrow> findLimitArg rest args (Suc i)
            | Some val \<Rightarrow> Some val))"

text \<open>
  The resource-count branch (api_test.go 771-820). The parameter \<^verbatim>\<open>limitArg\<close> is a
  \<^verbatim>\<open>**float64\<close>: \<open>None\<close> is a nil outer pointer, \<open>Some None\<close> a pointer to a nil
  \<^verbatim>\<open>*float64\<close>, \<open>Some (Some x)\<close> a pointer to a pointer to \<open>x\<close>. Reading or writing
  \<^verbatim>\<open>**limitArg\<close> through a nil pointer at either level panics.
\<close>

definition resourceBranch ::
  "RateLimit \<Rightarrow> int \<Rightarrow> real option option \<Rightarrow> int \<Rightarrow> goval \<Rightarrow> BindingParam list \<Rightarrow> goval list
     \<Rightarrow> world \<Rightarrow> (real option option \<times> world) outcome" where
  "resourceBranch rl sleepTime limitArg page currentPage params args w =
     (case valueLen currentPage of
        Panics \<Rightarrow> Panics
      | Returns l \<Rightarrow>
          if int l > rlRemaining rl then Returns (limitArg, sleepFor sleepTime w)
          else if page = 1 \<or> l > 0 then
            (case limitArg of
               None \<Rightarrow>
                 (case findLimitArg params args 0 of
                    Some val \<Rightarrow> Panics
                  | None \<Rightarrow> Panics)
             | Some None \<Rightarrow> Panics
             | Some (Some x) \<Rightarrow>
                 if x > real_of_int (rlRemaining rl)
                 then Returns (limitArg, sleepFor sleepTime w)
                 else Returns (limitArg, w))
          else Returns (limitArg, w))"

text \<open>
  \<^verbatim>\<open>paginatorCheckRateLimit\<close> (api_test.go 736-842). The result is the triple
  \<^verbatim>\<open>(ignoreFirstRequest, ok, err)\<close>, what \<^verbatim>\<open>limitArg\<close> points at afterwards, and the
  world.
\<close>

definition paginatorCheckRateLimit ::
  "bool \<Rightarrow> int \<Rightarrow> string \<Rightarrow> real option option \<Rightarrow> int \<Rightarrow> goval \<Rightarrow> BindingParam list
     \<Rightarrow> goval list \<Rightarrow> world
     \<Rightarrow> ((bool \<times> bool \<times> error option) \<times> real option option \<times> world) outcome" where
  "paginatorCheckRateLimit rateLimited waitTime bindingNm limitArg page currentPage params args w =
     (if rateLimited then
        (case fetchLimit waitTime w of
           (rl, w1) \<Rightarrow>
             (case rl of
                Some r \<Rightarrow>
                  if rlReset r > clock w1 then
                    (let sleepTime = rlReset r - clock w1 in
                     case rlType r of
                       RequestRateLimit \<Rightarrow>
                         Returns ((False, True, None), limitArg,
                                  if rlRemaining r = 0 then sleepFor sleepTime w1 else w1)
                     | ResourceRateLimit \<Rightarrow>
                         (case resourceBranch r sleepTime limitArg page currentPage params args w1 of
                            Panics \<Rightarrow> Panics
                          | Returns (limitArg1, w2) \<Rightarrow> Returns ((False, True, None), limitArg1, w2))
                     | OtherRateLimit \<Rightarrow> Returns ((False, True, None), limitArg, w1))
                  else if page = 1 then Returns ((True, True, None), limitArg, w1)
                  else Returns ((False, True, None), limitArg, w1)
              | None \<Rightarrow>
                  if page = 1 then Returns ((True, True, None), limitArg, w1)
                  else Returns ((False, True, Some (RateLimitUnavailable page)), limitArg, w1)))
      else Returns ((False, False, None), limitArg, w))"

text \<open>
  The closure \<^verbatim>\<open>execute\<close> of the typed \<^verbatim>\<open>Next\<close> (api_test.go 863-870). It passes
  \<^verbatim>\<open>&p.limitArg\<close>, which is never nil, and \<^verbatim>\<open>p.args\<close>; on an error of the rate-limit
  check it returns the zero value of the return type. Its result carries
  \<^verbatim>\<open>ignoreFirstRequest\<close> as set by this call.
\<close>

definition typedExecuteOnce ::
  "goval list \<Rightarrow> paginatorState \<Rightarrow> world
     \<Rightarrow> (bool \<times> goval \<times> error option \<times> paginatorState \<times> world) outcome" where
  "typedExecuteOnce args p w =
     (case paginatorCheckRateLimit (pgClientRateLimited p) (pgWaitTime p) (pgBindingName p)
             (Some (pgLimitArg p)) (pgPage p) (pgCurrentPage p) (pgParams p) (pgArgs p) w of
        Panics \<Rightarrow> Panics
      | Returns ((ignoreFirstRequest, ok, err), limitArg1, w1) \<Rightarrow>
          (let p1 = p\<lparr>pgUsingRateLimitedClient := ok,
                      pgLimitArg := (case limitArg1 of Some c \<Rightarrow> c | None \<Rightarrow> pgLimitArg p)\<rparr>
           in case err of
                Some e \<Rightarrow> Returns (ignoreFirstRequest, zeroValue (pgReturnType p), Some e, p1, w1)
              | None \<Rightarrow>
                  (case bindingExecute args w1 of
                     ((ret, err1), w2) \<Rightarrow> Returns (ignoreFirstRequest, ret, err1, p1, w2))))"

text \<open>The end of a successful \<^verbatim>\<open>Next\<close> (api_test.go 887-891).\<close>

definition advancePage :: "paginatorState \<Rightarrow> world \<Rightarrow> paginatorState \<times> world" where
  "advancePage p w =
     (p\<lparr>pgPage := pgPage p + 1\<rparr>, if pgWaitTime p \<noteq> 0 then sleepFor (pgWaitTime p) w else w)"

text \<open>
  \<^verbatim>\<open>Next\<close> of the typed paginator (api_test.go 844-892). An error of
  \<^verbatim>\<open>InsertPaginatorParamValues\<close> is wrapped but the function goes on, and the assignment
  from \<^verbatim>\<open>execute()\<close> overwrites it. \<^verbatim>\<open>p.currentPage\<close> is assigned whatever \<^verbatim>\<open>execute\<close>
  returns, also on failure.
\<close>

definition typedNext ::
  "goenv \<Rightarrow> paginatorState \<Rightarrow> world \<Rightarrow> (error option \<times> paginatorState \<times> world) outcome" where
  "typedNext env p w =
     (case GetPaginatorParamValue env (pgParamSet p) (pgParams p) (pgCurrentPage p) (pgPage p) of
        Panics \<Rightarrow> Panics
      | Returns (Inl e) \<Rightarrow>
          Returns (Some (Wrapped ''cannot get paginator param values'' e), p, w)
      | Returns (Inr paginatorValues) \<Rightarrow>
          (let args = fst (InsertPaginatorParamValues (pgParamSet p) (pgParams p) (pgArgs p)
                             paginatorValues)
           in case typedExecuteOnce args p w of
                Panics \<Rightarrow> Panics
              | Returns (ignoreFirstRequest, ret, err, p1, w1) \<Rightarrow>
                  (let p2 = p1\<lparr>pgCurrentPage := ret\<rparr> in
                   case err of
                     None \<Rightarrow> (case advancePage p2 w1 of (p3, w3) \<Rightarrow> Returns (None, p3, w3))
                   | Some e \<Rightarrow>
                       if \<not> ignoreFirstRequest
                       then Returns (Some (PageError (pgPage p2) e), p2, w1)
                       else
                         (case typedExecuteOnce args p2 w1 of
                            Panics \<Rightarrow> Panics
                          | Returns (ignoreAgain, ret2, err2, p4, w4) \<Rightarrow>
                              (let p5 = p4\<lparr>pgCurrentPage := ret2\<rparr> in
                               case err2 of
                                 None \<Rightarrow>
                                   (case advancePage p5 w4 of (p6, w6) \<Rightarrow> Returns (None, p6, w6))
                               | Some e2 \<Rightarrow>
                                   Returns (Some (PageErrorAfterIgnore (pgPage p5) e2), p5, w4))))))"

text \<open>
  \<^verbatim>\<open>reflect.AppendSlice\<close> panics unless both values are slices of one element type.
\<close>

fun appendSlice :: "goval \<Rightarrow> goval \<Rightarrow> goval outcome" where
  "appendSlice (VSlice e xs) (VSlice e' ys) =
     (if e = e' then Returns (VSlice e (xs @ ys)) else Panics)"
| "appendSlice _ _ = Panics"

text \<open>
  \<^verbatim>\<open>merge\<close> of the typed paginator (api_test.go 894-908). The assertion of \<^verbatim>\<open>pages\<close> to
  \<^verbatim>\<open>Mergeable\<close> panics on a nil or non-implementing value; \<^verbatim>\<open>Merge\<close> changes its
  receiver in place.
\<close>

definition typedMerge :: "goenv \<Rightarrow> paginatorState \<Rightarrow> goval \<Rightarrow> (goval \<times> error option) outcome" where
  "typedMerge env p pages =
     (if implements env (pgReturnType p) ''Mergeable'' then
        (if pgPage p = 2 then Returns (pgCurrentPage p, None)
         else
           (case typeOf pages of
              None \<Rightarrow> Panics
            | Some ty \<Rightarrow>
                if implements env ty ''Mergeable''
                then Returns (mergeOf env pages (pgCurrentPage p))
                else Panics))
      else
        (case appendSlice pages (pgCurrentPage p) of
           Panics \<Rightarrow> Panics
         | Returns pages1 \<Rightarrow> Returns (pages1, None)))"

text \<open>
  \<^verbatim>\<open>All\<close> of the typed paginator (api_test.go 910-925). The loop runs for as long as
  pages keep coming, so it is a partial function: \<open>None\<close> is a run that never ends.
\<close>

partial_function (option) typedAllLoop ::
  "goenv \<Rightarrow> goval \<Rightarrow> paginatorState \<Rightarrow> world
     \<Rightarrow> ((goval \<times> error option) \<times> paginatorState \<times> world) outcome option" where
  "typedAllLoop env pages p w =
     (case typedContinue env p of
        Panics \<Rightarrow> Some Panics
      | Returns c \<Rightarrow>
          if \<not> c then Some (Returns ((pages, None), p, w))
          else
            (case typedNext env p w of
               Panics \<Rightarrow> Some Panics
             | Returns (nextErr, p1, w1) \<Rightarrow>
                 (case nextErr of
                    Some e \<Rightarrow> Some (Returns ((pages, Some e), p1, w1))
                  | None \<Rightarrow>
                      (case typedMerge env p1 pages of
                         Panics \<Rightarrow> Some Panics
                       | Returns (pages1, mergeErr) \<Rightarrow>
                           (case mergeErr of
                              Some e \<Rightarrow> Some (Returns ((pages1, Some e), p1, w1))
                            | None \<Rightarrow> typedAllLoop env pages1 p1 w1)))))"

definition typedAll ::
  "goenv \<Rightarrow> paginatorState \<Rightarrow> world
     \<Rightarrow> ((goval \<times> error option) \<times> paginatorState \<times> world) outcome option" where
  "typedAll env p w = typedAllLoop env (zeroValue (pgReturnType p)) p w"

text \<open>
  \<^verbatim>\<open>NewTypedPaginator\<close> (api_test.go 984-1025) and \<^verbatim>\<open>NewPaginator\<close> (1195-1235), given
  what they read of the binding: whether it is paginated, its parameters, its name and
  its return type. The typed paginator's \<^verbatim>\<open>currentPage\<close> starts as the zero value of
  \<^verbatim>\<open>RetT\<close>, the untyped one's, of type \<^verbatim>\<open>any\<close>, as nil.
\<close>

definition NewTypedPaginator ::
  "goenv \<Rightarrow> bool \<Rightarrow> int \<Rightarrow> bool \<Rightarrow> BindingParam list \<Rightarrow> string \<Rightarrow> gotype \<Rightarrow> goval list
     \<Rightarrow> error + paginatorState" where
  "NewTypedPaginator env rateLimited waitTime isPaginated params bindingNm returnType args =
     (if \<not> isPaginated then Inl NotPaginated
      else if checkPaginatorParams params = unknownParamSet then Inl NoPaginateableParams
      else if implements env returnType ''Mergeable''
              \<or> kindOfType returnType = KSlice \<or> kindOfType returnType = KArray
      then Inr \<lparr>pgClientRateLimited = rateLimited, pgUsingRateLimitedClient = rateLimited,
                pgBindingName = bindingNm, pgParams = params,
                pgParamSet = checkPaginatorParams params, pgLimitArg = None,
                pgWaitTime = waitTime, pgArgs = args, pgReturnType = returnType,
                pgPage = 1, pgCurrentPage = zeroValue returnType\<rparr>
      else Inl (NonSequenceReturnType returnType))"

definition NewPaginator ::
  "goenv \<Rightarrow> bool \<Rightarrow> int \<Rightarrow> bool \<Rightarrow> BindingParam list \<Rightarrow> string \<Rightarrow> gotype \<Rightarrow> goval list
     \<Rightarrow> error + paginatorState" where
  "NewPaginator env rateLimited waitTime isPaginated params bindingNm returnType args =
     (if \<not> isPaginated then Inl NotPaginated
      else if checkPaginatorParams params = unknownParamSet then Inl NoPaginateableParams
      else if implements env returnType ''Mergeable''
              \<or> kindOfType returnType = KSlice \<or> kindOfType returnType = KArray
      then Inr \<lparr>pgClientRateLimited = rateLimited, pgUsingRateLimitedClient = rateLimited,
                pgBindingName = bindingNm, pgParams = params,
                pgParamSet = checkPaginatorParams params, pgLimitArg = None,
                pgWaitTime = waitTime, pgArgs = args, pgReturnType = returnType,
                pgPage = 1, pgCurrentPage = VNil\<rparr>
      else Inl (NonSequenceReturnType returnType))"

section \<open>What the specification asks of the validator\<close>

text \<open>
  The normalized list in the specification's words: each schema position contributes the
  actual argument if there is one and its default otherwise, and a variadic position
  contributes all the remaining actual arguments, flattened in place.
\<close>

fun specNormalized :: "goval list \<Rightarrow> nat \<Rightarrow> BindingParam list \<Rightarrow> goval list" where
  "specNormalized args i [] = []"
| "specNormalized args i (p # ps) =
     (if variadic p then drop i args
      else (if i < length args then args ! i else defaultValue p) # specNormalized args (Suc i) ps)"

text \<open>
  An argument matches a parameter when it implements the declared interface, or has the
  element type of a variadic parameter, or has exactly the declared type.
\<close>

definition argMatches :: "(gotype \<Rightarrow> string \<Rightarrow> bool) \<Rightarrow> BindingParam \<Rightarrow> goval \<Rightarrow> bool" where
  "argMatches impl p a =
     (if interfaceFlag p then typeImplements impl (typeOf a) (ptype p) = Returns True
      else if variadic p
      then (case typeElem (ptype p) of Returns e \<Rightarrow> typeOf a = Some e | Panics \<Rightarrow> False)
      else typeOf a = ptype p)"

text \<open>
  The argument list supplies every required parameter, and every actual argument matches
  the parameter of its position (every argument of the tail, for a variadic parameter).
\<close>

definition argsSatisfy ::
  "(gotype \<Rightarrow> string \<Rightarrow> bool) \<Rightarrow> BindingParam list \<Rightarrow> goval list \<Rightarrow> bool" where
  "argsSatisfy impl params args =
     (\<forall>i < length params.
        (required (params ! i) \<longrightarrow> i < length args)
      \<and> (if variadic (params ! i)
         then (\<forall>a \<in> set (drop i args). argMatches impl (params ! i) a)
         else i < length args \<longrightarrow> argMatches impl (params ! i) (args ! i)))"

text \<open>
  The invariant of the data model that the constructors establish and the structural
  check does not test: a variadic parameter is not required; and it is not
  interface-typed.
\<close>

definition plainVariadic :: "BindingParam list \<Rightarrow> bool" where
  "plainVariadic params =
     (\<forall>p \<in> set params. variadic p \<longrightarrow> \<not> required p \<and> \<not> interfaceFlag p)"

text \<open>
  What one attribute function does to the attribute map when evaluated with a given
  client: it writes its key, or, if it panics, nothing.
\<close>

definition applyAttr :: "Client option \<Rightarrow> attrMap \<Rightarrow> Attr \<Rightarrow> attrMap" where
  "applyAttr client m attr = (case attr client of Returns (key, val) \<Rightarrow> m(key \<mapsto> val) | Panics \<Rightarrow> m)"

text \<open>
  A limit is live when the oracle, after its retries, reported one whose reset time lies
  after the clock.
\<close>

definition liveLimit :: "RateLimit option \<times> world \<Rightarrow> bool" where
  "liveLimit x = (case x of (Some r, w1) \<Rightarrow> rlReset r > clock w1 | (None, w1) \<Rightarrow> False)"

text \<open>The argument list that \<^verbatim>\<open>Next\<close> builds for the coming page.\<close>

definition nextArgs :: "goenv \<Rightarrow> paginatorState \<Rightarrow> goval list" where
  "nextArgs env p =
     (case GetPaginatorParamValue env (pgParamSet p) (pgParams p) (pgCurrentPage p) (pgPage p) of
        Returns (Inr paginatorValues) \<Rightarrow>
          fst (InsertPaginatorParamValues (pgParamSet p) (pgParams p) (pgArgs p) paginatorValues)
      | _ \<Rightarrow> [])"

text \<open>
  A run of successful fetches: each \<^verbatim>\<open>Next\<close> succeeds and leaves a non-empty page of
  element type \<open>e\<close>; the pages are listed in fetch order.
\<close>

inductive fetches ::
  "goenv \<Rightarrow> gotype \<Rightarrow> paginatorState \<Rightarrow> world \<Rightarrow> goval list list \<Rightarrow> paginatorState \<Rightarrow> world \<Rightarrow> bool" where
  fetchesNone: "fetches env e p w [] p w"
| fetchesMore:
    "typedNext env p w = Returns (None, p1, w1) \<Longrightarrow> pgCurrentPage p1 = VSlice e xs \<Longrightarrow> xs \<noteq> [] \<Longrightarrow>
     fetches env e p1 w1 pgs p' w' \<Longrightarrow> fetches env e p w (xs # pgs) p' w'"

text \<open>
  The state in which \<^verbatim>\<open>Continue\<close> of a sequence-typed paginator answers true: the
  current page is a slice, and it is the first page or the slice is not empty.
\<close>

definition canGo :: "gotype \<Rightarrow> paginatorState \<Rightarrow> bool" where
  "canGo e p = (\<exists>xs. pgCurrentPage p = VSlice e xs \<and> (pgPage p = 1 \<or> xs \<noteq> []))"

text \<open>
  A slice is well placed in a heap when its length is within its capacity, its backing
  array has that capacity and its address has been allocated.
\<close>

definition sliceOk :: "heap \<Rightarrow> goslice \<Rightarrow> bool" where
  "sliceOk h s = (sLen s \<le> sCap s \<and> length (arrays h (sArr s)) = sCap s \<and> sArr s < nextAddr h)"

section \<open>Concrete inputs\<close>

definition emptyHeap :: heap where
  "emptyHeap =
     \<lparr>maps = (\<lambda>_. Map.empty), arrays = (\<lambda>_. []), structs = (\<lambda>_. None), nextAddr = 0\<rparr>"

definition noImpl :: "gotype \<Rightarrow> string \<Rightarrow> bool" where
  "noImpl ty i = False"

text \<open>The schema (a required, b optional = 1, c variadic of int).\<close>

definition exampleParams :: "BindingParam list" where
  "exampleParams =
     [\<lparr>name = ''a'', variadic = False, required = True, defaultValue = VInt 0,
       ptype = Some TInt, interfaceFlag = False\<rparr>,
      \<lparr>name = ''b'', variadic = False, required = False, defaultValue = VInt 1,
       ptype = Some TInt, interfaceFlag = False\<rparr>,
      \<lparr>name = ''c'', variadic = True, required = False, defaultValue = VSlice TInt [],
       ptype = Some (TSlice TInt), interfaceFlag = False\<rparr>]"

text \<open>Two required parameters of the same name.\<close>

definition duplicateParams :: "BindingParam list" where
  "duplicateParams =
     [\<lparr>name = ''a'', variadic = False, required = True, defaultValue = VInt 0,
       ptype = Some TInt, interfaceFlag = False\<rparr>,
      \<lparr>name = ''a'', variadic = False, required = True, defaultValue = VInt 0,
       ptype = Some TInt, interfaceFlag = False\<rparr>]"

text \<open>
  \<^verbatim>\<open>NewBindingChain[bool, bool](request).SetParamsMethod(...)\<close>, as the repository's test
  of \<^verbatim>\<open>TypeCheckArgs\<close> builds its binding.
\<close>

definition bindingWith :: "BindingParam list \<Rightarrow> bindingProto" where
  "bindingWith params =
     SetParamsMethod
       (snd (NewBindingChain emptyHeap None TBool TBool ''api.bindingProto[bool,bool]''))
       (Some params)"

text \<open>An attribute function that needs no client.\<close>

definition exampleAttr :: Attr where
  "exampleAttr client = Returns (''k'', VInt 1)"

text \<open>An environment in which no type has a capability.\<close>

definition plainEnv :: goenv where
  "plainEnv = \<lparr>implements = (\<lambda>ty i. False), hasMoreOf = (\<lambda>v. False),
               mergeOf = (\<lambda>a b. (a, None)), afterOf = (\<lambda>v. VNil)\<rparr>"

text \<open>The schema (limit optional = 10, page optional = 1) of a paginated binding.\<close>

definition limitPageParams :: "BindingParam list" where
  "limitPageParams =
     [\<lparr>name = ''limit'', variadic = False, required = False, defaultValue = VInt 10,
       ptype = Some TInt, interfaceFlag = False\<rparr>,
      \<lparr>name = ''page'', variadic = False, required = False, defaultValue = VInt 1,
       ptype = Some TInt, interfaceFlag = False\<rparr>]"

text \<open>
  The paginators that \<^verbatim>\<open>NewTypedPaginator\<close> and \<^verbatim>\<open>NewPaginator\<close> build for a binding
  named items with that schema, return type \<^verbatim>\<open>[]int\<close>, no wait time and no arguments.
\<close>

definition freshTyped :: "bool \<Rightarrow> paginatorState" where
  "freshTyped rateLimited =
     \<lparr>pgClientRateLimited = rateLimited, pgUsingRateLimitedClient = rateLimited,
      pgBindingName = ''items'', pgParams = limitPageParams, pgParamSet = pageParamSet,
      pgLimitArg = None, pgWaitTime = 0, pgArgs = [], pgReturnType = TSlice TInt,
      pgPage = 1, pgCurrentPage = VSlice TInt []\<rparr>"

definition freshUntyped :: paginatorState where
  "freshUntyped = (freshTyped False)\<lparr>pgCurrentPage := VNil\<rparr>"

text \<open>
  Scripts for \<^verbatim>\<open>Execute\<close>: one fails on its first call and then returns a page; one
  returns the pages (1, 2), (3) and then empty pages.
\<close>

definition failOnce :: "nat \<Rightarrow> goval list \<Rightarrow> goval \<times> error option" where
  "failOnce n args = (if n = 0 then (VSlice TInt [], Some (External ''timeout''))
                      else (VSlice TInt [VInt 7], None))"

definition threePages :: "nat \<Rightarrow> goval list \<Rightarrow> goval \<times> error option" where
  "threePages n args = (if n = 0 then (VSlice TInt [VInt 1, VInt 2], None)
                        else if n = 1 then (VSlice TInt [VInt 3], None)
                        else (VSlice TInt [], None))"

text \<open>A world at time 100 with the given oracle and \<^verbatim>\<open>Execute\<close> scripts.\<close>

definition worldWith ::
  "(nat \<Rightarrow> RateLimit option) \<Rightarrow> (nat \<Rightarrow> goval list \<Rightarrow> goval \<times> error option) \<Rightarrow> world" where
  "worldWith limits execs =
     \<lparr>clock = 100, rateLimits = limits, rateLimitCalls = 0, executions = execs,
      executeCalls = 0, slept = []\<rparr>"

text \<open>A limit whose reset time has passed, and a live resource-count limit.\<close>

definition expiredLimit :: RateLimit where
  "expiredLimit = \<lparr>rlReset = 50, rlRemaining = 5, rlUsed = 0, rlType = RequestRateLimit\<rparr>"

definition resourceLimit :: RateLimit where
  "resourceLimit = \<lparr>rlReset = 200, rlRemaining = 5, rlUsed = 0, rlType = ResourceRateLimit\<rparr>"

text \<open>A growth policy for \<^verbatim>\<open>append\<close>: double the capacity, or take what is needed.\<close>

definition doubling :: "nat \<Rightarrow> nat \<Rightarrow> nat" where
  "doubling c n = max n (2 * c)"

text \<open>
  The binding \<^verbatim>\<open>NewBindingChain[bool, bool](nil)\<close> builds in the empty heap, and the
  heap and pointer once that struct has been placed at its address.
\<close>

definition baseHeap :: heap where
  "baseHeap = fst (NewBindingChain emptyHeap None TBool TBool ''api.bindingProto[bool,bool]'')"

definition baseBinding :: bindingProto where
  "baseBinding = snd (NewBindingChain emptyHeap None TBool TBool ''api.bindingProto[bool,bool]'')"

definition placedHeap :: heap where
  "placedHeap = fst (returnAddressOf baseHeap baseBinding)"

definition placedPtr :: nat where
  "placedPtr = snd (returnAddressOf baseHeap baseBinding)"

text \<open>An attribute function that can only be evaluated with a client.\<close>

definition needsClient :: "string \<Rightarrow> Attr" where
  "needsClient key client = (case client of None \<Rightarrow> Panics | Some c \<Rightarrow> Returns (key, VInt 1))"

text \<open>
  A chain of \<^verbatim>\<open>AddAttrs\<close> calls that leaves a binding with three pending attribute
  functions in an array of capacity four; a snapshot of it with a fourth function z; and
  a second \<^verbatim>\<open>AddAttrs\<close>, of w, on the binding the snapshot was taken from.
\<close>

definition addTo :: "heap \<times> bindingProto \<Rightarrow> Attr list \<Rightarrow> heap \<times> bindingProto" where
  "addTo hb fs = AddAttrs doubling (fst hb) (snd hb) fs"

definition threeAttrs :: "heap \<times> bindingProto" where
  "threeAttrs =
     addTo (addTo (addTo (baseHeap, baseBinding) [needsClient ''x'']) [needsClient ''y''])
           [needsClient ''v'']"

definition snapshotZ :: "heap \<times> bindingProto" where
  "snapshotZ = addTo threeAttrs [needsClient ''z'']"

definition afterW :: "heap \<times> bindingProto" where
  "afterW = AddAttrs doubling (fst snapshotZ) (snd threeAttrs) [needsClient ''w'']"

text \<open>
  A request-builder that reports how many arguments it was given, a client whose
  \<^verbatim>\<open>Run\<close> fills the response wrapper with the request it receives, and the binding
  \<^verbatim>\<open>NewBindingChain[int, int]\<close> builds over that request-builder, with no parameters.
\<close>

definition countingRequest :: "attrMap \<Rightarrow> goval list \<Rightarrow> goval" where
  "countingRequest m args = VInt (int (length args))"

definition echoClient :: Client where
  "echoClient = \<lparr>run = (\<lambda>nm m req w. Inr (VPtr TInt (Some req)))\<rparr>"

definition countingHeap :: heap where
  "countingHeap = fst (NewBindingChain emptyHeap (Some countingRequest) TInt TInt ''api.bindingProto[int,int]'')"

definition countingBinding :: bindingProto where
  "countingBinding = snd (NewBindingChain emptyHeap (Some countingRequest) TInt TInt ''api.bindingProto[int,int]'')"

section \<open>Properties of the structural check and of the Params notation\<close>

text \<open>
  C4. The structural check is meant to reject every list in which a required parameter
  follows a non-required one. Evaluated on the list (a optional, b required) it reports
  no error: \<^verbatim>\<open>lastRequiredParam\<close> starts at 0, so a required parameter at index 1 is
  accepted whether or not index 0 was required.
\<close>

theorem C4_checkParams_accepts_required_after_optional:
  "checkParams
     [\<lparr>name = ''a'', variadic = False, required = False, defaultValue = VInt 1,
       ptype = Some TInt, interfaceFlag = False\<rparr>,
      \<lparr>name = ''b'', variadic = False, required = True, defaultValue = VInt 1,
       ptype = Some TInt, interfaceFlag = False\<rparr>] = None"
  by (simp add: checkParams_def)

text \<open>A non-required variadic parameter that the check accepts is the last one.\<close>

lemma checkParamsLoop_variadic_last:
  "checkParamsLoop n m l i ps = None \<Longrightarrow> k < length ps \<Longrightarrow>
   variadic (ps ! k) \<Longrightarrow> \<not> required (ps ! k) \<Longrightarrow> int (i + k) = int n - 1"
proof (induction ps arbitrary: m l i k)
  case Nil then show ?case by simp
next
  case (Cons p ps)
  show ?case
  proof (cases k)
    case 0
    with Cons.prems show ?thesis
      by (auto simp: Let_def split: option.splits if_splits)
  next
    case (Suc k')
    from Cons.prems(1) obtain m' l' where "checkParamsLoop n m' l' (Suc i) ps = None"
      by (auto simp: Let_def split: option.splits if_splits)
    from Cons.IH[OF this, of k'] Cons.prems Suc show ?thesis by simp
  qed
qed

lemma checkParams_variadic_last:
  assumes "checkParams params = None" "k < length params" "variadic (params ! k)"
    "\<not> required (params ! k)"
  shows "Suc k = length params"
proof -
  from checkParamsLoop_variadic_last[of "length params" Map.empty 0 0 params k] assms
  have "int k = int (length params) - 1" by (simp add: checkParams_def)
  then show ?thesis by linarith
qed

text \<open>
  C10. In the Params notation a boolean in slot 3 sets the variadic flag of the parameter
  just appended and, when true, clears its required flag; and a complete tuple of name,
  value and two booleans yields exactly one parameter with the value's type and default,
  variadic as given and required only if not variadic.
\<close>

theorem C10_params_variadic_slot:
  assumes "getReflectType v = Returns (Some ty, iflag, d)"
    and "currentBindingArg st = 3" and "\<not> skipUntilName st" and "bindingParams st = ps @ [bp]"
  shows "paramsStep st (VBool vf) =
           Returns (st\<lparr>bindingParams := ps @ [bp\<lparr>variadic := vf, required := required bp \<and> \<not> vf\<rparr>],
                       currentBinding := zeroBindingParam, currentBindingArg := 0\<rparr>)
         \<and> Params [VString nm, v, VBool r, VBool vf] =
           Returns [\<lparr>name = nm, variadic = vf, required = (r \<and> \<not> vf), defaultValue = d,
                     ptype = Some ty, interfaceFlag = iflag\<rparr>]"
proof
  show "paramsStep st (VBool vf) =
           Returns (st\<lparr>bindingParams := ps @ [bp\<lparr>variadic := vf, required := required bp \<and> \<not> vf\<rparr>],
                       currentBinding := zeroBindingParam, currentBindingArg := 0\<rparr>)"
    using assms(2-4)
    by (cases ps)
       (auto simp add: paramsStep_def paramsBoolClause_def updateLast_def resetCurrentBinding_def)
  show "Params [VString nm, v, VBool r, VBool vf] =
           Returns [\<lparr>name = nm, variadic = vf, required = (r \<and> \<not> vf), defaultValue = d,
                     ptype = Some ty, interfaceFlag = iflag\<rparr>]"
    using assms(1)
    by (cases "kindOfType ty")
       (simp_all add: Params_def paramsStep_def paramsStringClause_def paramsBoolClause_def
          paramsDefaultClause_def setDefaultValue_def resetCurrentBinding_def updateLast_def
          zeroBindingParam_def)
qed

text \<open>
  The instance \<^verbatim>\<open>Params("x", []int{}, false, true)\<close>, with the parser state after the
  third token of that call for the step.
\<close>

theorem C10_params_variadic_slot_witness:
  "getReflectType (VSlice TInt []) = Returns (Some (TSlice TInt), False, VSlice TInt [])
   \<and> Params [VString ''x'', VSlice TInt [], VBool False, VBool True] =
       Returns [\<lparr>name = ''x'', variadic = True, required = False,
                 defaultValue = VSlice TInt [], ptype = Some (TSlice TInt),
                 interfaceFlag = False\<rparr>]"
proof -
  let ?bp = "\<lparr>name = ''x'', variadic = False, required = False,
              defaultValue = VSlice TInt [], ptype = Some (TSlice TInt), interfaceFlag = False\<rparr>"
  let ?st = "\<lparr>bindingParams = [?bp], currentBinding = zeroBindingParam,
              currentBindingArg = 3, skipUntilName = False\<rparr>"
  have g: "getReflectType (VSlice TInt []) = Returns (Some (TSlice TInt), False, VSlice TInt [])"
    by simp
  have a: "currentBindingArg ?st = 3" and s: "\<not> skipUntilName ?st"
    and l: "bindingParams ?st = [] @ [?bp]" by simp_all
  from C10_params_variadic_slot [where vf = True and nm = "''x''" and r = False, OF g a s l] g
  show ?thesis by simp
qed

section \<open>Properties of the argument validator\<close>

lemma constructed_paramErr: "constructed b \<Longrightarrow> paramErr b = None"
  by (induction rule: constructed.induct)
     (simp_all add: NewBinding_def NewBindingChain_def SetResponseWrapperMethod_def
        SetResponseUnwrappedMethod_def SetResponseMethod_def SetParamsMethod_def
        SetPaginated_def SetName_def AddAttrs_def Let_def split: prod.splits)

lemma bindingWith_constructed: "constructed (bindingWith ps)"
  unfolding bindingWith_def by (intro constructed.intros)

lemma bindingWith_paramsMethod: "paramsMethod (bindingWith ps) = Some ps"
  by (simp add: bindingWith_def SetParamsMethod_def Let_def)

text \<open>
  C1. The structural error is meant to be computed once, cached on the binding and
  returned by every later call. The methods that would cache it have value receivers, so
  the binding never holds it: for a binding whose schema has two parameters named a, the
  check does find the duplicate, but \<^verbatim>\<open>paramErr\<close> and \<^verbatim>\<open>checkedParams\<close> stay unset,
  \<^verbatim>\<open>TypeCheckArgs\<close> answers an empty call with a validation error and a well-typed
  call with success, and \<^verbatim>\<open>ArgsFromStrings\<close> sees no schema error either.
\<close>

theorem C1_schema_error_not_cached:
  "checkParams duplicateParams = Some (SameName ''a'' 1 ''a'' 0)
   \<and> paramErr (bindingWith duplicateParams) = None
   \<and> checkedParams (bindingWith duplicateParams) = False
   \<and> TypeCheckArgs noImpl (bindingWith duplicateParams) []
       = Returns ([], Some (RequiredNotProvided ''a'' 0))
   \<and> TypeCheckArgs noImpl (bindingWith duplicateParams) [VInt 1, VInt 2]
       = Returns ([VInt 1, VInt 2], None)
   \<and> ArgsFromStringsSchemaCheck (bindingWith duplicateParams) = None"
  by (simp add: checkParams_def duplicateParams_def TypeCheckArgs_def bindingWith_def
      SetParamsMethod_def NewBindingChain_def protoParams_def Let_def typeCheck_def
      ArgsFromStringsSchemaCheck_def)

text \<open>
  Whatever error \<^verbatim>\<open>TypeCheckArgs\<close> returns for a binding built by the constructors and
  setters is a validation error: the schema error never reaches the caller.
\<close>

lemma variadicLoop_validation:
  "variadicLoop impl p e j xs acc = Returns (ys, Some err) \<Longrightarrow> isValidationError err"
  by (induction xs arbitrary: j acc) (auto split: outcome.splits if_splits prod.splits)

lemma typeCheckLoop_validation:
  "typeCheckLoop impl args i ps acc = Returns (ys, Some err) \<Longrightarrow> isValidationError err"
proof (induction ps arbitrary: i acc)
  case Nil then show ?case by simp
next
  case (Cons p ps)
  then show ?case
    by (auto split: outcome.splits if_splits prod.splits dest: variadicLoop_validation)
qed

lemma TypeCheckArgs_never_schema_error:
  assumes "constructed b" and "TypeCheckArgs impl b args = Returns (ys, Some err)"
  shows "isValidationError err \<and> \<not> isSchemaError err"
proof -
  have "paramErr b = None" using assms(1) by (rule constructed_paramErr)
  with assms(2) have "typeCheckLoop impl args 0 (protoParams b) [] = Returns (ys, Some err)"
    by (auto simp: TypeCheckArgs_def Let_def split: if_splits)
  from typeCheckLoop_validation[OF this] show ?thesis by (cases err) simp_all
qed

lemma typeCheck_matches:
  "argMatches impl p a \<Longrightarrow> \<not> variadic p \<Longrightarrow> typeCheck impl p a = Returns (typeOf a, True)"
  by (auto simp: argMatches_def typeCheck_def split: if_splits)

lemma typeCheck_matches_var:
  "argMatches impl p a \<Longrightarrow> variadic p \<Longrightarrow> \<not> interfaceFlag p \<Longrightarrow>
   typeCheck impl p a = Returns (typeOf a, True)"
  by (auto simp: argMatches_def typeCheck_def split: outcome.splits)

lemma variadicLoop_ok:
  "variadic p \<Longrightarrow> \<not> interfaceFlag p \<Longrightarrow> \<forall>a \<in> set xs. argMatches impl p a \<Longrightarrow>
   variadicLoop impl p e j xs acc = Returns (acc @ xs, None)"
  by (induction xs arbitrary: j acc) (simp_all add: typeCheck_matches_var)

lemma typeCheckLoop_ok:
  assumes "\<forall>k < length ps.
        (required (ps ! k) \<longrightarrow> i + k < length args)
      \<and> (if variadic (ps ! k)
         then \<not> required (ps ! k) \<and> \<not> interfaceFlag (ps ! k) \<and> Suc k = length ps
              \<and> (\<forall>a \<in> set (drop (i + k) args). argMatches impl (ps ! k) a)
         else i + k < length args \<longrightarrow> argMatches impl (ps ! k) (args ! (i + k)))"
  shows "typeCheckLoop impl args i ps acc = Returns (acc @ specNormalized args i ps, None)"
  using assms
proof (induction ps arbitrary: i acc)
  case Nil then show ?case by simp
next
  case (Cons p ps)
  have hd: "(required p \<longrightarrow> i < length args)
      \<and> (if variadic p
         then \<not> required p \<and> \<not> interfaceFlag p \<and> ps = []
              \<and> (\<forall>a \<in> set (drop i args). argMatches impl p a)
         else i < length args \<longrightarrow> argMatches impl p (args ! i))"
    using Cons.prems[rule_format, of 0] by (simp cong: if_cong)
  have tl: "\<forall>k < length ps.
        (required (ps ! k) \<longrightarrow> Suc i + k < length args)
      \<and> (if variadic (ps ! k)
         then \<not> required (ps ! k) \<and> \<not> interfaceFlag (ps ! k) \<and> Suc k = length ps
              \<and> (\<forall>a \<in> set (drop (Suc i + k) args). argMatches impl (ps ! k) a)
         else Suc i + k < length args \<longrightarrow> argMatches impl (ps ! k) (args ! (Suc i + k)))"
  proof (intro allI impI)
    fix k assume "k < length ps"
    then show "(required (ps ! k) \<longrightarrow> Suc i + k < length args)
      \<and> (if variadic (ps ! k)
         then \<not> required (ps ! k) \<and> \<not> interfaceFlag (ps ! k) \<and> Suc k = length ps
              \<and> (\<forall>a \<in> set (drop (Suc i + k) args). argMatches impl (ps ! k) a)
         else Suc i + k < length args \<longrightarrow> argMatches impl (ps ! k) (args ! (Suc i + k)))"
      using Cons.prems[rule_format, of "Suc k"] by (simp cong: if_cong)
  qed
  note IH = Cons.IH[OF tl]
  show ?case
  proof (cases "variadic p")
    case True
    with hd have nr: "\<not> required p" and ni: "\<not> interfaceFlag p" and ps: "ps = []"
      and all: "\<forall>a \<in> set (drop i args). argMatches impl p a" by auto
    show ?thesis
    proof (cases "i < length args")
      case True
      then have "args ! i \<in> set (drop i args)"
        by (metis Cons_nth_drop_Suc list.set_intros(1))
      with all have "argMatches impl p (args ! i)" by blast
      with \<open>variadic p\<close> ni obtain e where e: "typeElem (ptype p) = Returns e"
        by (auto simp: argMatches_def split: outcome.splits)
      with True \<open>variadic p\<close> show ?thesis
        by (simp add: variadicLoop_ok[OF \<open>variadic p\<close> ni all])
    next
      case False
      with \<open>variadic p\<close> nr ps show ?thesis by simp
    qed
  next
    case False
    show ?thesis
    proof (cases "i < length args")
      case True
      with False hd have "argMatches impl p (args ! i)" by simp
      from typeCheck_matches[OF this False] True False IH show ?thesis by simp
    next
      case False
      with \<open>\<not> variadic p\<close> hd have "\<not> required p" by auto
      with False \<open>\<not> variadic p\<close> IH show ?thesis by simp
    qed
  qed
qed

lemma specNormalized_length:
  assumes "\<forall>k < length ps. variadic (ps ! k) \<longrightarrow> Suc k = length ps"
  shows "length (specNormalized args i ps) =
         (if \<exists>p \<in> set ps. variadic p
          then length ps - 1 + (length args - (i + (length ps - 1)))
          else length ps)"
  using assms
proof (induction ps arbitrary: i)
  case Nil then show ?case by simp
next
  case (Cons p ps)
  show ?case
  proof (cases "variadic p")
    case True
    with Cons.prems[rule_format, of 0] have "ps = []" by simp
    with True show ?thesis by simp
  next
    case False
    have "\<forall>k < length ps. variadic (ps ! k) \<longrightarrow> Suc k = length ps"
      using Cons.prems by (metis Suc_less_eq length_Cons nth_Cons_Suc Suc_inject)
    from Cons.IH[OF this, of "Suc i"] False show ?thesis
      by (cases ps) auto
  qed
qed

text \<open>
  C2, as the code has it. For a binding built by the constructors and setters whose
  schema passes the structural check and whose variadic parameter, if any, is plain, and
  for arguments that supply every required parameter with matching values,
  \<^verbatim>\<open>TypeCheckArgs\<close> succeeds with the normalized list: defaults in the optional gaps,
  the variadic tail flattened in place. Its length is the schema length when no parameter
  is variadic; with a variadic parameter it is the schema length less one plus the number
  of variadic arguments, so one short of the schema length when the tail is empty.
\<close>

theorem C2_typecheck_normalizes:
  assumes c: "constructed b" and pm: "paramsMethod b = Some params"
    and valid: "checkParams params = None" and plain: "plainVariadic params"
    and sat: "argsSatisfy impl params args"
  shows "TypeCheckArgs impl b args = Returns (specNormalized args 0 params, None)
         \<and> length (specNormalized args 0 params) =
             (if \<exists>p \<in> set params. variadic p
              then length params - 1 + (length args - (length params - 1))
              else length params)"
proof -
  have pe: "paramErr b = None" using c by (rule constructed_paramErr)
  have pp: "protoParams b = params" using pm by (simp add: protoParams_def)
  have last: "\<forall>k < length params. variadic (params ! k) \<longrightarrow> Suc k = length params"
    using checkParams_variadic_last[OF valid] plain by (auto simp: plainVariadic_def)
  have pre: "\<forall>k < length params.
        (required (params ! k) \<longrightarrow> 0 + k < length args)
      \<and> (if variadic (params ! k)
         then \<not> required (params ! k) \<and> \<not> interfaceFlag (params ! k) \<and> Suc k = length params
              \<and> (\<forall>a \<in> set (drop (0 + k) args). argMatches impl (params ! k) a)
         else 0 + k < length args \<longrightarrow> argMatches impl (params ! k) (args ! (0 + k)))"
  proof (intro allI impI)
    fix k assume k: "k < length params"
    then have mem: "params ! k \<in> set params" by simp
    from sat k have s: "(required (params ! k) \<longrightarrow> k < length args)
      \<and> (if variadic (params ! k)
         then (\<forall>a \<in> set (drop k args). argMatches impl (params ! k) a)
         else k < length args \<longrightarrow> argMatches impl (params ! k) (args ! k))"
      unfolding argsSatisfy_def by blast
    show "(required (params ! k) \<longrightarrow> 0 + k < length args)
      \<and> (if variadic (params ! k)
         then \<not> required (params ! k) \<and> \<not> interfaceFlag (params ! k) \<and> Suc k = length params
              \<and> (\<forall>a \<in> set (drop (0 + k) args). argMatches impl (params ! k) a)
         else 0 + k < length args \<longrightarrow> argMatches impl (params ! k) (args ! (0 + k)))"
    proof (cases "variadic (params ! k)")
      case True
      with plain mem have "\<not> required (params ! k)" "\<not> interfaceFlag (params ! k)"
        by (auto simp: plainVariadic_def)
      with True s last k show ?thesis by simp
    next
      case False
      with s show ?thesis by simp
    qed
  qed
  have loop: "typeCheckLoop impl args 0 params [] = Returns ([] @ specNormalized args 0 params, None)"
    by (rule typeCheckLoop_ok[OF pre])
  have tc: "TypeCheckArgs impl b args = Returns (specNormalized args 0 params, None)"
  proof (cases params)
    case Nil
    then show ?thesis by (simp add: TypeCheckArgs_def pe pp)
  next
    case (Cons p ps)
    with loop show ?thesis by (simp add: TypeCheckArgs_def pe pp)
  qed
  from specNormalized_length[OF last, of args 0] tc show ?thesis by simp
qed

lemma exampleParams_valid: "checkParams exampleParams = None"
  by (simp add: checkParams_def exampleParams_def)

lemma exampleParams_plain: "plainVariadic exampleParams"
  by (simp add: plainVariadic_def exampleParams_def)

lemma exampleParams_sat1: "argsSatisfy noImpl exampleParams [VInt 5]"
  by (simp add: argsSatisfy_def exampleParams_def argMatches_def less_Suc_eq nth_Cons')

lemma exampleParams_sat4: "argsSatisfy noImpl exampleParams [VInt 5, VInt 2, VInt 3, VInt 4]"
  by (simp add: argsSatisfy_def exampleParams_def argMatches_def less_Suc_eq nth_Cons')

theorem C2_typecheck_normalizes_witness:
  "constructed (bindingWith exampleParams)
   \<and> paramsMethod (bindingWith exampleParams) = Some exampleParams
   \<and> checkParams exampleParams = None \<and> plainVariadic exampleParams
   \<and> argsSatisfy noImpl exampleParams [VInt 5, VInt 2, VInt 3, VInt 4]
   \<and> TypeCheckArgs noImpl (bindingWith exampleParams) [VInt 5, VInt 2, VInt 3, VInt 4]
       = Returns ([VInt 5, VInt 2, VInt 3, VInt 4], None)"
  using C2_typecheck_normalizes [OF bindingWith_constructed bindingWith_paramsMethod
      exampleParams_valid exampleParams_plain exampleParams_sat4]
    bindingWith_constructed [of exampleParams] bindingWith_paramsMethod [of exampleParams]
    exampleParams_valid exampleParams_plain exampleParams_sat4
  by (simp add: exampleParams_def)

text \<open>
  C2, as the specification states it, fails on its own example: for the schema
  (a required, b optional = 1, c variadic) and the arguments (5) the result is (5, 1),
  shorter than the schema.
\<close>

theorem C2_length_counterexample:
  "checkParams exampleParams = None
   \<and> argsSatisfy noImpl exampleParams [VInt 5]
   \<and> TypeCheckArgs noImpl (bindingWith exampleParams) [VInt 5] = Returns ([VInt 5, VInt 1], None)
   \<and> length [VInt 5, VInt 1] < length exampleParams"
proof -
  have "TypeCheckArgs noImpl (bindingWith exampleParams) [VInt 5] = Returns ([VInt 5, VInt 1], None)"
    by (simp add: TypeCheckArgs_def bindingWith_def SetParamsMethod_def
      NewBindingChain_def protoParams_def Let_def exampleParams_def typeCheck_def)
  moreover have "length [VInt 5, VInt 1] < length exampleParams"
    by (simp add: exampleParams_def)
  ultimately show ?thesis using exampleParams_valid exampleParams_sat1 by blast
qed

text \<open>
  C3. A binding whose \<^verbatim>\<open>Params()\<close> is empty gets an empty normalized list whatever the
  caller passes, and \<^verbatim>\<open>Execute\<close> runs its steps on that empty list: the request-builder
  is invoked with zero arguments, and what it returns for them is the request handed to
  the client's \<^verbatim>\<open>Run\<close>.
\<close>

theorem C3_empty_params_discard_args:
  assumes "constructed b" and "protoParams b = []"
    and "requestMethod b = Some f"
    and "ResponseWrapper (fst (evaluateAttrs h b (Some c))) b [] = Inr w"
  shows "TypeCheckArgs impl b args = Returns ([], None)
         \<and> Execute impl h b client args = executeSteps impl h b client []
         \<and> Request (fst (evaluateAttrs h b (Some c))) b [] = f (Attrs (fst (evaluateAttrs h b (Some c))) b) []
         \<and> Execute impl h b (Some c) args =
             (case run c (Name b) (Attrs (fst (evaluateAttrs h b (Some c))) b)
                     (f (Attrs (fst (evaluateAttrs h b (Some c))) b) []) w of
                Inl e \<Rightarrow> Returns (fst (evaluateAttrs h b (Some c)),
                                   Inl (Wrapped ''could not Execute Binding'' e))
              | Inr filled \<Rightarrow>
                 (case ResponseUnwrapped (fst (evaluateAttrs h b (Some c))) b filled [] of
                    Panics \<Rightarrow> Panics
                  | Returns (Inl e) \<Rightarrow>
                      Returns (fst (evaluateAttrs h b (Some c)),
                               Inl (Wrapped ''could not execute ResponseUnwrapped for Binding'' e))
                  | Returns (Inr responseUnwrapped) \<Rightarrow>
                     (case Response impl (fst (evaluateAttrs h b (Some c))) b responseUnwrapped [] of
                        Panics \<Rightarrow> Panics
                      | Returns response \<Rightarrow>
                          Returns (fst (evaluateAttrs h b (Some c)), Inr response))))"
proof -
  have pe: "paramErr b = None" using assms(1) by (rule constructed_paramErr)
  have tc: "TypeCheckArgs impl b args = Returns ([], None)"
    by (simp add: TypeCheckArgs_def pe assms(2))
  have ex: "Execute impl h b cl args = executeSteps impl h b cl []" for cl
    by (simp add: tc Execute_def)
  have rq: "Request (fst (evaluateAttrs h b (Some c))) b [] = f (Attrs (fst (evaluateAttrs h b (Some c))) b) []"
    by (simp add: Request_def assms(3))
  have es: "executeSteps impl h b (Some c) [] =
             (case run c (Name b) (Attrs (fst (evaluateAttrs h b (Some c))) b)
                     (f (Attrs (fst (evaluateAttrs h b (Some c))) b) []) w of
                Inl e \<Rightarrow> Returns (fst (evaluateAttrs h b (Some c)),
                                   Inl (Wrapped ''could not Execute Binding'' e))
              | Inr filled \<Rightarrow>
                 (case ResponseUnwrapped (fst (evaluateAttrs h b (Some c))) b filled [] of
                    Panics \<Rightarrow> Panics
                  | Returns (Inl e) \<Rightarrow>
                      Returns (fst (evaluateAttrs h b (Some c)),
                               Inl (Wrapped ''could not execute ResponseUnwrapped for Binding'' e))
                  | Returns (Inr responseUnwrapped) \<Rightarrow>
                     (case Response impl (fst (evaluateAttrs h b (Some c))) b responseUnwrapped [] of
                        Panics \<Rightarrow> Panics
                      | Returns response \<Rightarrow>
                          Returns (fst (evaluateAttrs h b (Some c)), Inr response))))"
    using rq assms(4) by (simp add: executeSteps_def Let_def)
  show ?thesis
    by (intro conjI, rule tc, rule ex, rule rq, subst ex, rule es)
qed

lemmas heap_defs = NewBindingChain_def newSlice_def emptyHeap_def returnAddressOf_def
  AddAttrs_def goAppend_def evaluateAttrs_def sliceElems_def Let_def doubling_def

lemma counting_facts:
  "constructed countingBinding" "protoParams countingBinding = []"
  "requestMethod countingBinding = Some countingRequest"
  "ResponseWrapper (fst (evaluateAttrs countingHeap countingBinding (Some echoClient)))
     countingBinding [] = Inr (VPtr TInt (Some (VInt 0)))"
  unfolding countingBinding_def
     apply (rule constructed.byNewBindingChain)
    apply (simp_all add: protoParams_def ResponseWrapper_def heap_defs)
  done

text \<open>
  The request-builder counts its arguments: given the caller's two it would answer 2;
  \<^verbatim>\<open>Execute\<close> with those two arguments returns what it answers for none.
\<close>

theorem C3_empty_params_discard_args_witness:
  "constructed countingBinding \<and> protoParams countingBinding = []
   \<and> requestMethod countingBinding = Some countingRequest
   \<and> ResponseWrapper (fst (evaluateAttrs countingHeap countingBinding (Some echoClient)))
        countingBinding [] = Inr (VPtr TInt (Some (VInt 0)))
   \<and> countingRequest Map.empty [VInt 3, VString ''x''] = VInt 2
   \<and> TypeCheckArgs noImpl countingBinding [VInt 3, VString ''x''] = Returns ([], None)
   \<and> Execute noImpl countingHeap countingBinding (Some echoClient) [VInt 3, VString ''x'']
       = Returns (fst (evaluateAttrs countingHeap countingBinding (Some echoClient)),
                  Inr (VInt 0))"
proof -
  have r: "run echoClient nm m req w = Inr (VPtr TInt (Some req))" for nm m req w
    by (simp add: echoClient_def)
  have u: "ResponseUnwrapped h countingBinding (VPtr TInt (Some v)) [] = Returns (Inr v)" for h v
    by (simp add: ResponseUnwrapped_def countingBinding_def heap_defs)
  have p: "Response noImpl h countingBinding (VInt n) [] = Returns (VInt n)" for h n
    by (simp add: Response_def countingBinding_def heap_defs)
  note t = C3_empty_params_discard_args
         [where impl = noImpl and args = "[VInt 3, VString ''x'']",
          OF counting_facts(1) counting_facts(2) counting_facts(3) counting_facts(4)]
  have tc: "TypeCheckArgs noImpl countingBinding [VInt 3, VString ''x''] = Returns ([], None)"
    using t by blast
  have ex: "Execute noImpl countingHeap countingBinding (Some echoClient) [VInt 3, VString ''x'']
       = Returns (fst (evaluateAttrs countingHeap countingBinding (Some echoClient)),
                  Inr (VInt 0))"
    using t[THEN conjunct2, THEN conjunct2, THEN conjunct2]
    by (simp add: r u p countingRequest_def)
  have cr: "countingRequest Map.empty [VInt 3, VString ''x''] = VInt 2"
    by (simp add: countingRequest_def)
  from tc ex cr counting_facts show ?thesis by blast
qed

section \<open>Properties of the setters\<close>

lemma evaluateAttrsLoop_snd:
  "snd (evaluateAttrsLoop client i fs idxs m) = foldl (applyAttr client) m fs"
  by (induction fs arbitrary: i idxs m) (auto simp: applyAttr_def split: outcome.splits)

lemma evaluateAttrs_heap:
  "maps (fst (evaluateAttrs h b client)) =
     (maps h)(attrs b := foldl (applyAttr client) (maps h (attrs b)) (sliceElems h (attrFuncs b)))
   \<and> structs (fst (evaluateAttrs h b client)) = structs h
   \<and> nextAddr h \<le> nextAddr (fst (evaluateAttrs h b client))
   \<and> (\<forall>a < nextAddr h. arrays (fst (evaluateAttrs h b client)) a = arrays h a)"
  using evaluateAttrsLoop_snd[of client 0 "sliceElems h (attrFuncs b)" "[]" "maps h (attrs b)"]
  by (auto simp: evaluateAttrs_def newSlice_def Let_def split: prod.splits)

lemma goAppend_facts:
  assumes "sliceOk h s" and "\<forall>c n. n \<le> grow c n" and "goAppend grow h s xs = (h1, s1)"
  shows "sliceElems h1 s1 = sliceElems h s @ xs \<and> sliceElems h1 s = sliceElems h s
         \<and> maps h1 = maps h \<and> structs h1 = structs h \<and> nextAddr h \<le> nextAddr h1
         \<and> sArr s1 < nextAddr h1"
proof (cases "sLen s + length xs \<le> sCap s")
  case True
  with assms show ?thesis
    by (auto simp: goAppend_def sliceOk_def sliceElems_def Let_def)
next
  case False
  with assms show ?thesis
    by (auto simp: goAppend_def sliceOk_def sliceElems_def Let_def)
qed


lemma returnAddressOf_facts:
  "returnAddressOf h b = (h', p') \<Longrightarrow>
   p' = nextAddr h \<and> structs h' = (structs h)(p' := Some b) \<and> maps h' = maps h
   \<and> arrays h' = arrays h"
  by (auto simp: returnAddressOf_def)

text \<open>
  C9, as the code has it. Take a binding whose struct lies at address p. A call of a
  field setter through p returns a fresh address that holds the receiver's copy as the
  setter left it; the struct at p, every attribute map and every backing array are as
  before. Each of the six field setters holds its override and changes no other field.
  \<^verbatim>\<open>AddAttrs\<close> likewise returns a fresh address and leaves the struct at p as it was;
  its snapshot differs from the original only in the slice header, shows the original's
  pending attribute functions followed by the new ones, and the original still shows its
  own. But the snapshot and the original share one attribute map, and \<^verbatim>\<open>AddAttrs\<close>
  writes into it every attribute that evaluates with a nil client, so the original sees
  them too. No other attribute map changes.
\<close>

theorem C9_setters_copy_fields_share_attrs:
  assumes st: "structs h p = Some b" and al: "p < nextAddr h"
    and ok: "sliceOk h (attrFuncs b)" and gr: "\<forall>c n. n \<le> grow c n"
    and rs: "returnAddressOf h (setter b) = (h', p')"
    and aa: "AddAttrs grow h b fs = (hA, bA)"
    and ra: "returnAddressOf hA bA = (hA', pA)"
  shows "callSetter h p setter = Returns (h', p')
     \<and> p' \<noteq> p \<and> structs h' p = Some b \<and> structs h' p' = Some (setter b)
     \<and> maps h' = maps h \<and> arrays h' = arrays h
     \<and> Name (SetName b nm) = nm
     \<and> (SetName b nm)\<lparr>bindingName := x, nameSet := y\<rparr> = b\<lparr>bindingName := x, nameSet := y\<rparr>
     \<and> Paginated (SetPaginated b pag) = pag
     \<and> (SetPaginated b pag)\<lparr>paginated := y\<rparr> = b\<lparr>paginated := y\<rparr>
     \<and> responseWrapperMethod (SetResponseWrapperMethod b wm) = wm
     \<and> (SetResponseWrapperMethod b wm)\<lparr>responseWrapperMethod := wm'\<rparr>
           = b\<lparr>responseWrapperMethod := wm'\<rparr>
     \<and> responseUnwrappedMethod (SetResponseUnwrappedMethod b um) = um
     \<and> (SetResponseUnwrappedMethod b um)\<lparr>responseUnwrappedMethod := um'\<rparr>
           = b\<lparr>responseUnwrappedMethod := um'\<rparr>
     \<and> responseMethod (SetResponseMethod b rm) = rm
     \<and> (SetResponseMethod b rm)\<lparr>responseMethod := rm'\<rparr> = b\<lparr>responseMethod := rm'\<rparr>
     \<and> paramsMethod (SetParamsMethod b pm) = pm
     \<and> (SetParamsMethod b pm)\<lparr>paramsMethod := pm', paramErr := pe, checkedParams := y\<rparr>
           = b\<lparr>paramsMethod := pm', paramErr := pe, checkedParams := y\<rparr>
     \<and> callAddAttrs grow h p fs = Returns (hA', pA)
     \<and> pA \<noteq> p \<and> structs hA' p = Some b \<and> structs hA' pA = Some bA
     \<and> bA\<lparr>attrFuncs := s\<rparr> = b\<lparr>attrFuncs := s\<rparr>
     \<and> sliceElems hA' (attrFuncs bA) = sliceElems h (attrFuncs b) @ fs
     \<and> sliceElems hA' (attrFuncs b) = sliceElems h (attrFuncs b)
     \<and> Attrs hA' b = foldl (applyAttr None) (Attrs h b) (sliceElems h (attrFuncs b) @ fs)
     \<and> Attrs hA' bA = Attrs hA' b
     \<and> (\<forall>a. a \<noteq> attrs b \<longrightarrow> maps hA' a = maps h a)"
proof -
  note r1 = returnAddressOf_facts[OF rs]
  have field: "callSetter h p setter = Returns (h', p')
     \<and> p' \<noteq> p \<and> structs h' p = Some b \<and> structs h' p' = Some (setter b)
     \<and> maps h' = maps h \<and> arrays h' = arrays h"
    using r1 st al rs by (auto simp: callSetter_def)
  have over: "Name (SetName b nm) = nm
     \<and> (SetName b nm)\<lparr>bindingName := x, nameSet := y\<rparr> = b\<lparr>bindingName := x, nameSet := y\<rparr>
     \<and> Paginated (SetPaginated b pag) = pag
     \<and> (SetPaginated b pag)\<lparr>paginated := y\<rparr> = b\<lparr>paginated := y\<rparr>
     \<and> responseWrapperMethod (SetResponseWrapperMethod b wm) = wm
     \<and> (SetResponseWrapperMethod b wm)\<lparr>responseWrapperMethod := wm'\<rparr>
           = b\<lparr>responseWrapperMethod := wm'\<rparr>
     \<and> responseUnwrappedMethod (SetResponseUnwrappedMethod b um) = um
     \<and> (SetResponseUnwrappedMethod b um)\<lparr>responseUnwrappedMethod := um'\<rparr>
           = b\<lparr>responseUnwrappedMethod := um'\<rparr>
     \<and> responseMethod (SetResponseMethod b rm) = rm
     \<and> (SetResponseMethod b rm)\<lparr>responseMethod := rm'\<rparr> = b\<lparr>responseMethod := rm'\<rparr>
     \<and> paramsMethod (SetParamsMethod b pm) = pm
     \<and> (SetParamsMethod b pm)\<lparr>paramsMethod := pm', paramErr := pe, checkedParams := y\<rparr>
           = b\<lparr>paramsMethod := pm', paramErr := pe, checkedParams := y\<rparr>"
    by (simp add: SetName_def SetPaginated_def SetResponseWrapperMethod_def
      SetResponseUnwrappedMethod_def SetResponseMethod_def SetParamsMethod_def Let_def
      Name_def Paginated_def)
  obtain h1 s1 where ga: "goAppend grow h (attrFuncs b) fs = (h1, s1)" by force
  note g = goAppend_facts[OF ok gr ga]
  let ?b1 = "b\<lparr>attrFuncs := s1\<rparr>"
  from aa ga have bA: "bA = ?b1" and hA: "hA = fst (evaluateAttrs h1 ?b1 None)"
    by (auto simp add: AddAttrs_def Let_def)
  note e = evaluateAttrs_heap[of h1 ?b1 None]
  note r2 = returnAddressOf_facts[OF ra]
  have s1lt: "sArr s1 < nextAddr h1" and slt: "sArr (attrFuncs b) < nextAddr h1"
    using g ok by (auto simp: sliceOk_def)
  have arr1: "arrays hA' (sArr s1) = arrays h1 (sArr s1)"
    and arr0: "arrays hA' (sArr (attrFuncs b)) = arrays h1 (sArr (attrFuncs b))"
    using r2 e hA s1lt slt by auto
  have el1: "sliceElems hA' (attrFuncs bA) = sliceElems h (attrFuncs b) @ fs"
    using g arr1 bA by (simp add: sliceElems_def)
  have el0: "sliceElems hA' (attrFuncs b) = sliceElems h (attrFuncs b)"
    using g arr0 by (simp add: sliceElems_def)
  have mp: "maps hA' = (maps h)(attrs b :=
              foldl (applyAttr None) (maps h (attrs b)) (sliceElems h (attrFuncs b) @ fs))"
    using r2 e hA g by simp
  have add: "callAddAttrs grow h p fs = Returns (hA', pA)
     \<and> pA \<noteq> p \<and> structs hA' p = Some b \<and> structs hA' pA = Some bA"
    using r2 e hA g st al aa ra by (auto simp: callAddAttrs_def)
  have rest: "bA\<lparr>attrFuncs := s\<rparr> = b\<lparr>attrFuncs := s\<rparr>
     \<and> Attrs hA' b = foldl (applyAttr None) (Attrs h b) (sliceElems h (attrFuncs b) @ fs)
     \<and> Attrs hA' bA = Attrs hA' b
     \<and> (\<forall>a. a \<noteq> attrs b \<longrightarrow> maps hA' a = maps h a)"
    using mp bA by (simp add: Attrs_def)
  from field over add el1 el0 rest show ?thesis by blast
qed

lemma placed_facts:
  "structs placedHeap placedPtr = Some baseBinding" "placedPtr < nextAddr placedHeap"
  "sliceOk placedHeap (attrFuncs baseBinding)" "\<forall>c n. n \<le> doubling c n"
  by (simp_all add: placedHeap_def placedPtr_def baseHeap_def baseBinding_def heap_defs
      sliceOk_def)

theorem C9_setters_copy_fields_share_attrs_witness:
  "structs placedHeap placedPtr = Some baseBinding \<and> placedPtr < nextAddr placedHeap
   \<and> sliceOk placedHeap (attrFuncs baseBinding) \<and> (\<forall>c n. n \<le> doubling c n)
   \<and> callSetter placedHeap placedPtr (\<lambda>b. SetName b ''users'')
       = Returns (returnAddressOf placedHeap (SetName baseBinding ''users''))
   \<and> structs (fst (returnAddressOf placedHeap (SetName baseBinding ''users''))) placedPtr
       = Some baseBinding
   \<and> Name (SetName baseBinding ''users'') = ''users''
   \<and> sliceElems (fst (returnAddressOf (fst (AddAttrs doubling placedHeap baseBinding [exampleAttr]))
                                      (snd (AddAttrs doubling placedHeap baseBinding [exampleAttr]))))
                 (attrFuncs (snd (AddAttrs doubling placedHeap baseBinding [exampleAttr])))
       = [exampleAttr]
   \<and> sliceElems (fst (returnAddressOf (fst (AddAttrs doubling placedHeap baseBinding [exampleAttr]))
                                      (snd (AddAttrs doubling placedHeap baseBinding [exampleAttr]))))
                 (attrFuncs baseBinding) = []"
proof -
  have e: "sliceElems placedHeap (attrFuncs baseBinding) = []"
    by (simp add: placedHeap_def baseHeap_def baseBinding_def heap_defs)
  from C9_setters_copy_fields_share_attrs
         [where setter = "\<lambda>b. SetName b ''users''" and fs = "[exampleAttr]"
            and nm = "''users''",
          OF placed_facts(1) placed_facts(2) placed_facts(3) placed_facts(4)
             surjective_pairing surjective_pairing surjective_pairing]
       placed_facts e
  show ?thesis by simp
qed

text \<open>
  C9, as the specification states it, fails for \<^verbatim>\<open>AddAttrs\<close>: called on a binding whose
  attribute map has no key k, it leaves that binding's struct as it was and its
  attribute map with k.
\<close>

theorem C9_AddAttrs_counterexample:
  "structs placedHeap placedPtr = Some baseBinding
   \<and> Attrs placedHeap baseBinding ''k'' = None
   \<and> callAddAttrs doubling placedHeap placedPtr [exampleAttr]
       = Returns (returnAddressOf (fst (AddAttrs doubling placedHeap baseBinding [exampleAttr]))
                                 (snd (AddAttrs doubling placedHeap baseBinding [exampleAttr])))
   \<and> structs (fst (returnAddressOf (fst (AddAttrs doubling placedHeap baseBinding [exampleAttr]))
                                 (snd (AddAttrs doubling placedHeap baseBinding [exampleAttr]))))
             placedPtr = Some baseBinding
   \<and> Attrs (fst (returnAddressOf (fst (AddAttrs doubling placedHeap baseBinding [exampleAttr]))
                                 (snd (AddAttrs doubling placedHeap baseBinding [exampleAttr]))))
           baseBinding ''k'' = Some (VInt 1)"
  by (simp add: placedHeap_def placedPtr_def baseHeap_def baseBinding_def heap_defs
      callAddAttrs_def Attrs_def exampleAttr_def)

text \<open>
  The snapshot's new attribute functions lie in a backing array that the receiver may
  share: after a second \<^verbatim>\<open>AddAttrs\<close> on the same receiver, the first snapshot shows the
  second call's function in place of its own.
\<close>

lemma AddAttrs_shares_backing_array:
  "sLen (attrFuncs (snd threeAttrs)) = 3 \<and> sCap (attrFuncs (snd threeAttrs)) = 4
   \<and> sliceElems (fst snapshotZ) (attrFuncs (snd snapshotZ))
     = [needsClient ''x'', needsClient ''y'', needsClient ''v'', needsClient ''z'']
   \<and> sliceElems (fst afterW) (attrFuncs (snd snapshotZ))
     = [needsClient ''x'', needsClient ''y'', needsClient ''v'', needsClient ''w'']
   \<and> (sliceElems (fst snapshotZ) (attrFuncs (snd snapshotZ)) ! 3) (Some echoClient)
     = Returns (''z'', VInt 1)
   \<and> (sliceElems (fst afterW) (attrFuncs (snd snapshotZ)) ! 3) (Some echoClient)
     = Returns (''w'', VInt 1)"
  by (simp add: afterW_def snapshotZ_def threeAttrs_def addTo_def baseHeap_def baseBinding_def
      heap_defs needsClient_def[abs_def] nilAttr_def[abs_def])

section \<open>Properties of the paginator\<close>

text \<open>The rate-limit check never calls \<^verbatim>\<open>Execute\<close>.\<close>

lemma sleepFor_exec [simp]:
  "executeCalls (sleepFor d w) = executeCalls w" "executions (sleepFor d w) = executions w"
  by (simp_all add: sleepFor_def)

lemma latest_exec [simp]:
  "executeCalls (snd (latestRateLimit w)) = executeCalls w"
  "executions (snd (latestRateLimit w)) = executions w"
  by (simp_all add: latestRateLimit_def)

lemma fetchRetry_exec:
  "executeCalls (snd (fetchRetry n wt rl w)) = executeCalls w
   \<and> executions (snd (fetchRetry n wt rl w)) = executions w"
proof (induction n arbitrary: rl w)
  case 0 then show ?case by simp
next
  case (Suc n)
  show ?case
  proof (cases rl)
    case None
    obtain rl1 w1 where l: "latestRateLimit (sleepFor wt w) = (rl1, w1)" by force
    have "executeCalls w1 = executeCalls w" "executions w1 = executions w"
      using latest_exec[of "sleepFor wt w"] l by simp_all
    with Suc[of rl1 w1] None l show ?thesis by simp
  next
    case (Some r) then show ?thesis by simp
  qed
qed

lemma fetchLimit_exec:
  "executeCalls (snd (fetchLimit wt w)) = executeCalls w
   \<and> executions (snd (fetchLimit wt w)) = executions w"
proof -
  obtain rl w0 where l: "latestRateLimit w = (rl, w0)" by force
  have "executeCalls w0 = executeCalls w" "executions w0 = executions w"
    using latest_exec[of w] l by simp_all
  with fetchRetry_exec[of 3 wt rl w0] l show ?thesis by (simp add: fetchLimit_def)
qed

lemma resourceBranch_exec:
  "resourceBranch r st la pg cur ps as w = Returns (la1, w1) \<Longrightarrow>
   executeCalls w1 = executeCalls w \<and> executions w1 = executions w"
  by (auto simp: resourceBranch_def split: outcome.splits if_splits option.splits)

lemma checkRateLimit_facts:
  assumes "paginatorCheckRateLimit rl_on wt nm la pg cur ps as w = Returns ((ign, ok, err), la1, w1)"
  shows "executeCalls w1 = executeCalls w \<and> executions w1 = executions w
         \<and> (ign \<longrightarrow> rl_on \<and> pg = 1 \<and> \<not> liveLimit (fetchLimit wt w) \<and> err = None)
         \<and> (pg = 1 \<longrightarrow> err = None)"
proof (cases rl_on)
  case False
  with assms show ?thesis by (simp add: paginatorCheckRateLimit_def)
next
  case True
  obtain rl w0 where f: "fetchLimit wt w = (rl, w0)" by force
  have e0: "executeCalls w0 = executeCalls w" "executions w0 = executions w"
    using fetchLimit_exec[of wt w] f by simp_all
  show ?thesis
  proof (cases rl)
    case None
    with assms True f e0 show ?thesis
      by (auto simp: paginatorCheckRateLimit_def liveLimit_def split: if_splits)
  next
    case (Some r)
    show ?thesis
    proof (cases "rlReset r > clock w0")
      case False
      with assms True f e0 Some show ?thesis
        by (auto simp: paginatorCheckRateLimit_def liveLimit_def split: if_splits)
    next
      case live: True
      show ?thesis
      proof (cases "rlType r")
        case RequestRateLimit
        with assms True f e0 Some live show ?thesis
          by (auto simp: paginatorCheckRateLimit_def Let_def split: if_splits)
      next
        case ResourceRateLimit
        with assms True f Some live obtain la2 w2 where
          rb: "resourceBranch r (rlReset r - clock w0) la pg cur ps as w0 = Returns (la2, w2)"
          and eq: "ign = False" "err = None" "w1 = w2"
          by (auto simp: paginatorCheckRateLimit_def Let_def split: outcome.splits)
        from resourceBranch_exec[OF rb] e0 eq show ?thesis by simp
      next
        case OtherRateLimit
        with assms True f e0 Some live show ?thesis
          by (auto simp: paginatorCheckRateLimit_def Let_def split: if_splits)
      qed
    qed
  qed
qed

lemma executeOnce_facts:
  assumes "typedExecuteOnce args p w = Returns (ign, ret, err, p1, w1)"
  shows "pgPage p1 = pgPage p \<and> pgClientRateLimited p1 = pgClientRateLimited p
         \<and> pgWaitTime p1 = pgWaitTime p
         \<and> executions w1 = executions w
         \<and> (ign \<longrightarrow> pgClientRateLimited p \<and> pgPage p = 1 \<and> \<not> liveLimit (fetchLimit (pgWaitTime p) w))
         \<and> ((executeCalls w1 = executeCalls w \<and> err \<noteq> None \<and> pgPage p \<noteq> 1)
            \<or> (executeCalls w1 = Suc (executeCalls w)
                \<and> (ret, err) = executions w (executeCalls w) args))"
proof -
  from assms obtain ok cerr la1 w0 where
    c: "paginatorCheckRateLimit (pgClientRateLimited p) (pgWaitTime p) (pgBindingName p)
             (Some (pgLimitArg p)) (pgPage p) (pgCurrentPage p) (pgParams p) (pgArgs p) w
        = Returns ((ign, ok, cerr), la1, w0)"
    by (auto simp: typedExecuteOnce_def Let_def split: outcome.splits option.splits prod.splits)
  note f = checkRateLimit_facts[OF c]
  show ?thesis
  proof (cases cerr)
    case (Some e)
    with assms c f show ?thesis
      by (auto simp: typedExecuteOnce_def Let_def)
  next
    case None
    with assms c f show ?thesis
      by (auto simp: typedExecuteOnce_def Let_def bindingExecute_def split: prod.splits)
  qed
qed


lemma advancePage_exec:
  "advancePage p w = (p3, w3) \<Longrightarrow> executeCalls w3 = executeCalls w"
  by (auto simp: advancePage_def split: if_splits)

text \<open>
  C5, as the code has it. One call of \<^verbatim>\<open>Next\<close> invokes \<^verbatim>\<open>Execute\<close> at most twice. A
  second invocation happens only if the first one failed on page 1 of a rate-limited
  client whose oracle reported no live limit (none at all, or one already expired). When
  \<^verbatim>\<open>Execute\<close> is invoked once and fails, its error is returned wrapped with the page
  number.
\<close>

theorem C5_next_executes_at_most_twice:
  assumes "typedNext env p w = Returns (res, p', w')"
  shows "executeCalls w' \<le> executeCalls w + 2
     \<and> (executeCalls w' = executeCalls w + 2 \<longrightarrow>
          pgClientRateLimited p \<and> pgPage p = 1 \<and> \<not> liveLimit (fetchLimit (pgWaitTime p) w)
          \<and> snd (executions w (executeCalls w) (nextArgs env p)) \<noteq> None)
     \<and> (\<forall>e. executeCalls w' = executeCalls w + 1
              \<and> snd (executions w (executeCalls w) (nextArgs env p)) = Some e
            \<longrightarrow> res = Some (PageError (pgPage p) e))"
proof (cases "GetPaginatorParamValue env (pgParamSet p) (pgParams p) (pgCurrentPage p) (pgPage p)")
  case Panics
  with assms show ?thesis by (simp add: typedNext_def)
next
  case (Returns gv)
  show ?thesis
  proof (cases gv)
    case (Inl e)
    with assms Returns show ?thesis by (simp add: typedNext_def)
  next
    case (Inr pv)
    have na: "nextArgs env p =
        fst (InsertPaginatorParamValues (pgParamSet p) (pgParams p) (pgArgs p) pv)"
      using Returns Inr by (simp add: nextArgs_def)
    let ?args = "nextArgs env p"
    from assms Returns Inr na obtain ign ret err p1 w1 where
      x1: "typedExecuteOnce ?args p w = Returns (ign, ret, err, p1, w1)"
      by (auto simp: typedNext_def Let_def split: outcome.splits)
    note f1 = executeOnce_facts[OF x1]
    show ?thesis
    proof (cases err)
      case None
      from assms Returns Inr na x1 None obtain p3 where
        "advancePage (p1\<lparr>pgCurrentPage := ret\<rparr>) w1 = (p3, w')" "res = None"
        by (auto simp: typedNext_def Let_def split: prod.splits)
      from advancePage_exec[OF this(1)] f1 None show ?thesis
        by (auto simp: snd_def split: prod.splits)
    next
      case (Some e)
      show ?thesis
      proof (cases ign)
        case False
        from assms Returns Inr na x1 Some False
        have r: "res = Some (PageError (pgPage p1) e)" "w' = w1"
          by (auto simp: typedNext_def Let_def)
        from f1 Some r show ?thesis
          by auto (metis option.inject snd_conv)+
      next
        case True
        let ?p2 = "p1\<lparr>pgCurrentPage := ret\<rparr>"
        from assms Returns Inr na x1 Some True obtain ign2 ret2 err2 p4 w4 where
          x2: "typedExecuteOnce ?args ?p2 w1 = Returns (ign2, ret2, err2, p4, w4)"
          by (auto simp: typedNext_def Let_def split: outcome.splits)
        note f2 = executeOnce_facts[OF x2]
        from f1 True have pg1: "pgPage p = 1" "pgClientRateLimited p"
          "\<not> liveLimit (fetchLimit (pgWaitTime p) w)" by auto
        from f1 pg1 have c1: "executeCalls w1 = Suc (executeCalls w)"
          "(ret, err) = executions w (executeCalls w) ?args" by auto
        from f2 f1 pg1 have c2: "executeCalls w4 = Suc (executeCalls w1)" by auto
        have fin: "executeCalls w' = executeCalls w4"
        proof (cases err2)
          case None
          from assms Returns Inr na x1 Some True x2 None obtain p6 where
            "advancePage (p4\<lparr>pgCurrentPage := ret2\<rparr>) w4 = (p6, w')"
            by (auto simp: typedNext_def Let_def split: prod.splits)
          from advancePage_exec[OF this] show ?thesis .
        next
          case (Some e2)
          with assms Returns Inr na x1 \<open>err = Some e\<close> True x2 show ?thesis
            by (auto simp: typedNext_def Let_def)
        qed
        from c1 Some have "snd (executions w (executeCalls w) ?args) \<noteq> None"
          by (metis option.distinct(1) snd_conv)
        with fin c1 c2 pg1 show ?thesis by simp
      qed
    qed
  qed
qed

lemma freshTyped_built:
  "NewTypedPaginator plainEnv rl 0 True limitPageParams ''items'' (TSlice TInt) [] = Inr (freshTyped rl)"
  by (simp add: NewTypedPaginator_def checkPaginatorParams_def limitPageParams_def
      plainEnv_def freshTyped_def Let_def)

lemma freshUntyped_built:
  "NewPaginator plainEnv False 0 True limitPageParams ''items'' (TSlice TInt) [] = Inr freshUntyped"
  by (simp add: NewPaginator_def checkPaginatorParams_def limitPageParams_def
      plainEnv_def freshTyped_def freshUntyped_def Let_def)

lemmas pag_defs = typedNext_def typedExecuteOnce_def paginatorCheckRateLimit_def
  GetPaginatorParamValue_def InsertPaginatorParamValues_def addElemAt_def bindingExecute_def
  advancePage_def fetchLimit_def latestRateLimit_def sleepFor_def resourceBranch_def
  freshTyped_def worldWith_def limitPageParams_def plainEnv_def Let_def
  numeral_3_eq_3

text \<open>
  C5, as the specification states it, fails when the oracle does report a limit, but an
  expired one: on page 1 the failed first request is retried all the same.
\<close>

theorem C5_retry_counterexample:
  "fst (fetchLimit (pgWaitTime (freshTyped True)) (worldWith (\<lambda>n. Some expiredLimit) failOnce))
     = Some expiredLimit
   \<and> typedNext plainEnv (freshTyped True) (worldWith (\<lambda>n. Some expiredLimit) failOnce)
     = Returns (None,
                (freshTyped True)\<lparr>pgPage := 2, pgCurrentPage := VSlice TInt [VInt 7]\<rparr>,
                (worldWith (\<lambda>n. Some expiredLimit) failOnce)
                  \<lparr>rateLimitCalls := 2, executeCalls := 2\<rparr>)"
  by (simp add: pag_defs expiredLimit_def failOnce_def)

lemma noLimit_next:
  "typedNext plainEnv (freshTyped True) (worldWith (\<lambda>n. None) failOnce)
     = Returns (None,
                (freshTyped True)\<lparr>pgPage := 2, pgCurrentPage := VSlice TInt [VInt 7]\<rparr>,
                (worldWith (\<lambda>n. None) failOnce)
                  \<lparr>rateLimitCalls := 8, executeCalls := 2, slept := [0, 0, 0, 0, 0, 0]\<rparr>)"
  by (simp add: pag_defs failOnce_def)

theorem C5_next_executes_at_most_twice_witness:
  "typedNext plainEnv (freshTyped True) (worldWith (\<lambda>n. None) failOnce)
     = Returns (None,
                (freshTyped True)\<lparr>pgPage := 2, pgCurrentPage := VSlice TInt [VInt 7]\<rparr>,
                (worldWith (\<lambda>n. None) failOnce)
                  \<lparr>rateLimitCalls := 8, executeCalls := 2, slept := [0, 0, 0, 0, 0, 0]\<rparr>)
   \<and> executeCalls ((worldWith (\<lambda>n. None) failOnce)
                  \<lparr>rateLimitCalls := 8, executeCalls := 2, slept := [0, 0, 0, 0, 0, 0]\<rparr>)
       = executeCalls (worldWith (\<lambda>n. None) failOnce) + 2
   \<and> pgClientRateLimited (freshTyped True) \<and> pgPage (freshTyped True) = 1
   \<and> \<not> liveLimit (fetchLimit (pgWaitTime (freshTyped True)) (worldWith (\<lambda>n. None) failOnce))
   \<and> snd (executions (worldWith (\<lambda>n. None) failOnce)
                      (executeCalls (worldWith (\<lambda>n. None) failOnce))
                      (nextArgs plainEnv (freshTyped True))) \<noteq> None"
proof -
  have e: "executeCalls ((worldWith (\<lambda>n. None) failOnce)
                  \<lparr>rateLimitCalls := 8, executeCalls := 2, slept := [0, 0, 0, 0, 0, 0]\<rparr>)
       = executeCalls (worldWith (\<lambda>n. None) failOnce) + 2"
    by (simp add: worldWith_def)
  from C5_next_executes_at_most_twice [OF noLimit_next] e noLimit_next
  show ?thesis by simp
qed

text \<open>
  From \<^verbatim>\<open>Next\<close> the pointer \<^verbatim>\<open>limitArg\<close> is \<^verbatim>\<open>&p.limitArg\<close>, never nil, and what it
  points at is nil: wherever the resource-count branch reaches the limit comparison, it
  panics.
\<close>

lemma resourceBranch_panics:
  "valueLen cur = Returns l \<Longrightarrow> int l \<le> rlRemaining r \<Longrightarrow> page = 1 \<or> l > 0 \<Longrightarrow>
   resourceBranch r st (Some None) page cur ps as w = Panics"
  by (auto simp: resourceBranch_def)

text \<open>
  C6. With a live resource-count limit of 5 remaining, on page 1 of a binding whose limit
  parameter defaults to 10, the driver should find the requested count 10, see that it
  exceeds 5 and sleep until the reset. The search for the parameter is guarded by
  \<^verbatim>\<open>limitArg == nil\<close>, which is false, and \<^verbatim>\<open>**limitArg\<close> dereferences a nil pointer:
  the check panics, and \<^verbatim>\<open>Next\<close> with it.
\<close>

theorem C6_limit_lookup_panics:
  "NewTypedPaginator plainEnv True 0 True limitPageParams ''items'' (TSlice TInt) []
     = Inr (freshTyped True)
   \<and> findLimitArg (pgParams (freshTyped True)) (pgArgs (freshTyped True)) 0 = Some 10
   \<and> paginatorCheckRateLimit True 0 ''items'' (Some (pgLimitArg (freshTyped True))) 1
        (pgCurrentPage (freshTyped True)) (pgParams (freshTyped True)) (pgArgs (freshTyped True))
        (worldWith (\<lambda>n. Some resourceLimit) threePages) = Panics
   \<and> typedNext plainEnv (freshTyped True) (worldWith (\<lambda>n. Some resourceLimit) threePages) = Panics"
proof -
  have a: "findLimitArg (pgParams (freshTyped True)) (pgArgs (freshTyped True)) 0 = Some 10"
    by (simp add: freshTyped_def limitPageParams_def)
  have b: "paginatorCheckRateLimit True 0 ''items'' (Some (pgLimitArg (freshTyped True))) 1
        (pgCurrentPage (freshTyped True)) (pgParams (freshTyped True)) (pgArgs (freshTyped True))
        (worldWith (\<lambda>n. Some resourceLimit) threePages) = Panics"
    by (simp add: pag_defs resourceLimit_def)
  have c: "typedNext plainEnv (freshTyped True) (worldWith (\<lambda>n. Some resourceLimit) threePages) = Panics"
    by (simp add: pag_defs resourceLimit_def)
  from a b c freshTyped_built show ?thesis by blast
qed

text \<open>What \<^verbatim>\<open>Continue\<close> of the typed paginator answers.\<close>

lemma typedContinue_sequence:
  "\<not> implements env (pgReturnType p) ''Mergeable'' \<Longrightarrow> pgCurrentPage p = VSlice e xs \<Longrightarrow>
   typedContinue env p = Returns (pgPage p = 1 \<or> xs \<noteq> [])"
  by (simp add: typedContinue_def)

lemma typedContinue_mergeable:
  "implements env (pgReturnType p) ''Mergeable'' \<Longrightarrow> typeOf (pgCurrentPage p) = Some ty \<Longrightarrow>
   implements env ty ''Mergeable'' \<Longrightarrow>
   typedContinue env p = Returns (pgPage p = 1 \<or> hasMoreOf env (pgCurrentPage p))"
  by (simp add: typedContinue_def)

text \<open>
  C7. \<^verbatim>\<open>Continue\<close> should be true while the page counter is 1. The untyped paginator
  that \<^verbatim>\<open>NewPaginator\<close> builds for a slice-typed binding holds a nil \<^verbatim>\<open>currentPage\<close>,
  and \<^verbatim>\<open>Continue\<close> reads its length before it looks at the page counter: it panics.
  The typed paginator, whose \<^verbatim>\<open>currentPage\<close> starts as an empty slice, answers true.
\<close>

theorem C7_untyped_continue_panics:
  "NewPaginator plainEnv False 0 True limitPageParams ''items'' (TSlice TInt) [] = Inr freshUntyped
   \<and> pgPage freshUntyped = 1
   \<and> untypedContinue plainEnv freshUntyped = Panics
   \<and> typedContinue plainEnv (freshTyped False) = Returns True"
  using freshUntyped_built
  by (simp add: untypedContinue_def typedContinue_def freshUntyped_def freshTyped_def plainEnv_def)

lemma executeOnce_frame:
  assumes "typedExecuteOnce args p w = Returns (ign, ret, err, p1, w1)"
  shows "pgReturnType p1 = pgReturnType p \<and> pgPage p1 = pgPage p"
  using assms
  by (auto simp: typedExecuteOnce_def Let_def split: outcome.splits option.splits prod.splits)

lemma typedNext_success:
  assumes "typedNext env p w = Returns (None, p1, w1)"
  shows "pgPage p1 = pgPage p + 1 \<and> pgReturnType p1 = pgReturnType p"
proof -
  from assms obtain pv where
    g: "GetPaginatorParamValue env (pgParamSet p) (pgParams p) (pgCurrentPage p) (pgPage p)
        = Returns (Inr pv)"
    by (auto simp: typedNext_def split: outcome.splits sum.splits)
  let ?args = "fst (InsertPaginatorParamValues (pgParamSet p) (pgParams p) (pgArgs p) pv)"
  from assms g obtain ign ret err q1 v1 where
    x1: "typedExecuteOnce ?args p w = Returns (ign, ret, err, q1, v1)"
    by (auto simp: typedNext_def Let_def split: outcome.splits)
  note f1 = executeOnce_frame[OF x1]
  show ?thesis
  proof (cases err)
    case None
    with assms g x1 f1 show ?thesis
      by (auto simp: typedNext_def Let_def advancePage_def)
  next
    case (Some e)
    with assms g x1 have ign by (auto simp: typedNext_def Let_def split: if_splits)
    with assms g x1 Some obtain ign2 ret2 err2 q4 v4 where
      x2: "typedExecuteOnce ?args (q1\<lparr>pgCurrentPage := ret\<rparr>) v1 = Returns (ign2, ret2, err2, q4, v4)"
      by (auto simp: typedNext_def Let_def split: outcome.splits)
    note f2 = executeOnce_frame[OF x2]
    from assms g x1 Some \<open>ign\<close> x2 f1 f2 show ?thesis
      by (auto simp: typedNext_def Let_def advancePage_def split: option.splits)
  qed
qed

lemma continue_canGo:
  "canGo e p \<Longrightarrow> \<not> implements env (pgReturnType p) ''Mergeable'' \<Longrightarrow>
   typedContinue env p = Returns True"
  by (auto simp: canGo_def typedContinue_def)

lemma allLoop_fetches:
  assumes "fetches env e p w pgs p1 w1"
    and "pgReturnType p = TSlice e" and "\<not> implements env (TSlice e) ''Mergeable''"
    and "1 \<le> pgPage p" and "canGo e p"
  shows "typedAllLoop env (VSlice e acc) p w = typedAllLoop env (VSlice e (acc @ concat pgs)) p1 w1
         \<and> pgReturnType p1 = TSlice e \<and> 1 \<le> pgPage p1 \<and> canGo e p1"
  using assms
proof (induction arbitrary: acc rule: fetches.induct)
  case (fetchesNone env e p w)
  then show ?case by simp
next
  case (fetchesMore env p w p1 w1 e xs pgs p' w')
  from typedNext_success[OF fetchesMore.hyps(1)] fetchesMore.prems
  have rt: "pgReturnType p1 = TSlice e" and pg: "1 \<le> pgPage p1" by auto
  have cg: "canGo e p1" using fetchesMore.hyps(2,3) by (simp add: canGo_def)
  have c: "typedContinue env p = Returns True"
    using continue_canGo[OF fetchesMore.prems(4)] fetchesMore.prems by simp
  have m: "typedMerge env p1 (VSlice e acc) = Returns (VSlice e (acc @ xs), None)"
    using rt fetchesMore.prems(2) fetchesMore.hyps(2) by (simp add: typedMerge_def)
  have step: "typedAllLoop env (VSlice e acc) p w = typedAllLoop env (VSlice e (acc @ xs)) p1 w1"
    by (subst typedAllLoop.simps) (simp add: c fetchesMore.hyps(1) m)
  from fetchesMore.IH[OF rt fetchesMore.prems(2) pg cg, of "acc @ xs"] step
  show ?case by simp
qed

text \<open>
  C8. For a fresh typed paginator whose return type is a slice: after a run of successful
  fetches of non-empty pages, if the next \<^verbatim>\<open>Next\<close> fails, or succeeds with an empty
  page, then \<^verbatim>\<open>All\<close> returns, and what it returns is the concatenation of the fetched
  pages in fetch order together with that error, or with none.
\<close>

theorem C8_all_concatenates:
  assumes fresh: "pgPage p = 1" "pgCurrentPage p = zeroValue (pgReturnType p)"
    and slice: "pgReturnType p = TSlice e" "\<not> implements env (TSlice e) ''Mergeable''"
    and run: "fetches env e p w pgs p1 w1"
    and stop: "typedNext env p1 w1 = Returns (res, p2, w2)"
    and last: "res = None \<longrightarrow> pgCurrentPage p2 = VSlice e []"
  shows "typedAll env p w = Some (Returns ((VSlice e (concat pgs), res), p2, w2))"
proof -
  have cg: "canGo e p" using fresh slice by (simp add: canGo_def)
  from allLoop_fetches[OF run slice(1) slice(2) _ cg, of "[]"] fresh
  have l: "typedAllLoop env (VSlice e []) p w = typedAllLoop env (VSlice e (concat pgs)) p1 w1"
    and rt: "pgReturnType p1 = TSlice e" and pg: "1 \<le> pgPage p1" and cg1: "canGo e p1"
    by simp_all
  have c: "typedContinue env p1 = Returns True"
    using continue_canGo[OF cg1] rt slice by simp
  have fin: "typedAllLoop env (VSlice e (concat pgs)) p1 w1
             = Some (Returns ((VSlice e (concat pgs), res), p2, w2))"
  proof (cases res)
    case (Some err)
    show ?thesis by (subst typedAllLoop.simps) (simp add: c stop Some)
  next
    case None
    with last have cur: "pgCurrentPage p2 = VSlice e []" by simp
    from typedNext_success[OF stop[unfolded None]] rt pg
    have rt2: "pgReturnType p2 = TSlice e" and pg2: "pgPage p2 \<noteq> 1" by auto
    have m: "typedMerge env p2 (VSlice e (concat pgs)) = Returns (VSlice e (concat pgs), None)"
      using rt2 slice(2) cur by (simp add: typedMerge_def)
    have c2: "typedContinue env p2 = Returns False"
      using rt2 slice(2) cur pg2 by (simp add: typedContinue_def)
    have e2: "typedAllLoop env (VSlice e (concat pgs)) p2 w2
              = Some (Returns ((VSlice e (concat pgs), None), p2, w2))"
      by (subst typedAllLoop.simps) (simp add: c2)
    show ?thesis
      by (subst typedAllLoop.simps) (simp add: c stop None m e2)
  qed
  show ?thesis using l fin slice by (simp add: typedAll_def)
qed

lemma threePages_next:
  "typedNext plainEnv ((freshTyped False)\<lparr>pgPage := n, pgCurrentPage := c\<rparr>)
      ((worldWith (\<lambda>n. None) threePages)\<lparr>executeCalls := k\<rparr>)
   = Returns (None,
        (freshTyped False)\<lparr>pgPage := n + 1,
                            pgCurrentPage := fst (threePages k [VInt 10, VInt n])\<rparr>,
        (worldWith (\<lambda>n. None) threePages)\<lparr>executeCalls := Suc k\<rparr>)"
  by (simp add: pag_defs threePages_def)

theorem C8_all_concatenates_witness:
  "typedAll plainEnv (freshTyped False) (worldWith (\<lambda>n. None) threePages)
   = Some (Returns ((VSlice TInt [VInt 1, VInt 2, VInt 3], None),
                    (freshTyped False)\<lparr>pgPage := 4, pgCurrentPage := VSlice TInt []\<rparr>,
                    (worldWith (\<lambda>n. None) threePages)\<lparr>executeCalls := 3\<rparr>))"
proof -
  let ?P = "freshTyped False" and ?W = "worldWith (\<lambda>n. None) threePages"
  have P0: "?P = ?P\<lparr>pgPage := 1, pgCurrentPage := VSlice TInt []\<rparr>"
    and W0: "?W = ?W\<lparr>executeCalls := 0\<rparr>"
    by (simp_all add: freshTyped_def worldWith_def)
  have n1: "typedNext plainEnv ?P ?W
      = Returns (None, ?P\<lparr>pgPage := 2, pgCurrentPage := VSlice TInt [VInt 1, VInt 2]\<rparr>,
                 ?W\<lparr>executeCalls := 1\<rparr>)"
    using threePages_next[where n = 1 and c = "VSlice TInt []" and k = 0] P0 W0 by (simp add: threePages_def)
  have n2: "typedNext plainEnv (?P\<lparr>pgPage := 2, pgCurrentPage := VSlice TInt [VInt 1, VInt 2]\<rparr>)
                (?W\<lparr>executeCalls := 1\<rparr>)
      = Returns (None, ?P\<lparr>pgPage := 3, pgCurrentPage := VSlice TInt [VInt 3]\<rparr>,
                 ?W\<lparr>executeCalls := 2\<rparr>)"
    using threePages_next[where n = 2 and c = "VSlice TInt [VInt 1, VInt 2]" and k = 1]
    by (simp add: threePages_def numeral_2_eq_2)
  have n3: "typedNext plainEnv (?P\<lparr>pgPage := 3, pgCurrentPage := VSlice TInt [VInt 3]\<rparr>)
                (?W\<lparr>executeCalls := 2\<rparr>)
      = Returns (None, ?P\<lparr>pgPage := 4, pgCurrentPage := VSlice TInt []\<rparr>,
                 ?W\<lparr>executeCalls := 3\<rparr>)"
    using threePages_next[where n = 3 and c = "VSlice TInt [VInt 3]" and k = 2]
    by (simp add: threePages_def numeral_3_eq_3 numeral_2_eq_2)
  have f: "fetches plainEnv TInt ?P ?W [[VInt 1, VInt 2], [VInt 3]]
             (?P\<lparr>pgPage := 3, pgCurrentPage := VSlice TInt [VInt 3]\<rparr>) (?W\<lparr>executeCalls := 2\<rparr>)"
    by (rule fetchesMore[OF n1], simp, simp, rule fetchesMore[OF n2], simp, simp,
        rule fetchesNone)
  have fresh: "pgPage ?P = 1" "pgCurrentPage ?P = zeroValue (pgReturnType ?P)"
    "pgReturnType ?P = TSlice TInt" "\<not> implements plainEnv (TSlice TInt) ''Mergeable''"
    by (simp_all add: freshTyped_def plainEnv_def)
  have last: "None = None \<longrightarrow>
      pgCurrentPage (?P\<lparr>pgPage := 4, pgCurrentPage := VSlice TInt []\<rparr>) = VSlice TInt []"
    by simp
  from C8_all_concatenates [OF fresh f n3 last] show ?thesis by simp
qed


end
